theory Spec2Isabelle
  imports Complex_Main
begin

section \<open>Python values\<close>

text \<open>
  The card data of a dataset is a loosely typed dictionary read from YAML. Its values are
  modelled by the datatype below; a dictionary is an association list in insertion order
  (keys are unique in Python, so \<open>map_of\<close> finds the one entry of a key).
  Strings are byte strings; case conversion acts on the ASCII letters only.
\<close>

datatype pyval =
    PNone
  | PBool bool
  | PInt int
  | PStr string
  | PList "pyval list"
  | PDict "(string \<times> pyval) list"

type_synonym pydict = "(string \<times> pyval) list"

text \<open>Truth value testing, as used by \<^verbatim>\<open>or\<close>, \<^verbatim>\<open>not\<close> and \<^verbatim>\<open>if\<close>.\<close>

fun truthy :: "pyval \<Rightarrow> bool" where
  "truthy PNone = False"
| "truthy (PBool b) = b"
| "truthy (PInt i) = (i \<noteq> 0)"
| "truthy (PStr s) = (s \<noteq> [])"
| "truthy (PList xs) = (xs \<noteq> [])"
| "truthy (PDict kvs) = (kvs \<noteq> [])"

text \<open>\<^verbatim>\<open>a or b\<close>: the first operand when it is truthy, the second otherwise.\<close>

definition py_or :: "pyval \<Rightarrow> pyval \<Rightarrow> pyval" where
  "py_or a b = (if truthy a then a else b)"

text \<open>\<^verbatim>\<open>d.get(k)\<close>: the value of the key, \<^verbatim>\<open>None\<close> when the key is absent.\<close>

definition dict_get :: "pydict \<Rightarrow> string \<Rightarrow> pyval" where
  "dict_get d k = (case map_of d k of None \<Rightarrow> PNone | Some v \<Rightarrow> v)"

text \<open>\<^verbatim>\<open>card or {}\<close> for a card that is a dictionary or \<^verbatim>\<open>None\<close>.\<close>

definition card_or_empty :: "pydict option \<Rightarrow> pydict" where
  "card_or_empty cdata = (case cdata of None \<Rightarrow> [] | Some d \<Rightarrow> d)"

text \<open>
  \<^verbatim>\<open>str(x)\<close>: a string is returned as it is. The text Python prints for every other
  value (numbers, \<^verbatim>\<open>None\<close>, nested containers) is taken as the parameter \<open>r\<close>.
\<close>

definition py_str :: "(pyval \<Rightarrow> string) \<Rightarrow> pyval \<Rightarrow> string" where
  "py_str r v = (case v of PStr s \<Rightarrow> s | _ \<Rightarrow> r v)"

text \<open>\<^verbatim>\<open>s.lower()\<close> on ASCII: the letters A to Z get bit 5 set.\<close>

definition lower_char :: "char \<Rightarrow> char" where
  "lower_char c =
     (let n = (of_char c :: nat) in
      if 65 \<le> n \<and> n \<le> 90
      then (case c of Char b0 b1 b2 b3 b4 b5 b6 b7 \<Rightarrow> Char b0 b1 b2 b3 b4 True b6 b7)
      else c)"

definition lower :: "string \<Rightarrow> string" where
  "lower s = map lower_char s"

text \<open>\<^verbatim>\<open>s.strip()\<close>: leading and trailing ASCII whitespace is dropped.\<close>

definition is_space :: "char \<Rightarrow> bool" where
  "is_space c = (let n = (of_char c :: nat) in (9 \<le> n \<and> n \<le> 13) \<or> (28 \<le> n \<and> n \<le> 32))"

definition strip :: "string \<Rightarrow> string" where
  "strip s = rev (dropWhile is_space (rev (dropWhile is_space s)))"

text \<open>\<^verbatim>\<open>a in b\<close> on strings: \<open>a\<close> occurs in \<open>b\<close> as a contiguous substring.\<close>

fun starts_with :: "string \<Rightarrow> string \<Rightarrow> bool" where
  "starts_with [] ys = True"
| "starts_with (x # xs) [] = False"
| "starts_with (x # xs) (y # ys) = (x = y \<and> starts_with xs ys)"

fun substring_in :: "string \<Rightarrow> string \<Rightarrow> bool" where
  "substring_in xs [] = (xs = [])"
| "substring_in xs (y # ys) = (starts_with xs (y # ys) \<or> substring_in xs ys)"

section \<open>hf\_top\_datasets\_ui: the normalizer\<close>

text \<open>
  \<^verbatim>\<open>_normalize_list(val)\<close> (the leading underscore of the source's name is dropped):
  \<^verbatim>\<open>None\<close> gives the empty list, a string a one-element list, a dictionary the list
  of its values, a list itself and anything else the empty list.
\<close>

fun normalize_list :: "pyval \<Rightarrow> pyval list" where
  "normalize_list PNone = []"
| "normalize_list (PStr s) = [PStr s]"
| "normalize_list (PDict kvs) = map snd kvs"
| "normalize_list (PList xs) = xs"
| "normalize_list v = []"

text \<open>
  One round of the loop of \<^verbatim>\<open>_lower_flatten\<close>: what the item \<open>x\<close> appends to
  \<^verbatim>\<open>out\<close>. Of a dictionary only the string values are taken; the elements of a list
  and every other item go through \<^verbatim>\<open>str\<close>.
\<close>

fun dict_str_values :: "pydict \<Rightarrow> string list" where
  "dict_str_values [] = []"
| "dict_str_values ((k, PStr s) # kvs) = lower s # dict_str_values kvs"
| "dict_str_values ((k, v) # kvs) = dict_str_values kvs"

fun flatten_item :: "(pyval \<Rightarrow> string) \<Rightarrow> pyval \<Rightarrow> string list" where
  "flatten_item r (PDict kvs) = dict_str_values kvs"
| "flatten_item r (PList ys) = map (\<lambda>y. lower (py_str r y)) ys"
| "flatten_item r x = [lower (py_str r x)]"

fun lower_flatten_loop :: "(pyval \<Rightarrow> string) \<Rightarrow> pyval list \<Rightarrow> string list \<Rightarrow> string list" where
  "lower_flatten_loop r [] out = out"
| "lower_flatten_loop r (x # items) out = lower_flatten_loop r items (out @ flatten_item r x)"

text \<open>
  \<^verbatim>\<open>_lower_flatten(items)\<close> returns \<^verbatim>\<open>list({*out})\<close>: the distinct elements of
  \<^verbatim>\<open>out\<close>, in an order Python does not fix. The model keeps the last occurrence of each
  (\<open>remdups\<close>); the program only tests membership and takes the length of the result.
\<close>

definition lower_flatten :: "(pyval \<Rightarrow> string) \<Rightarrow> pyval list \<Rightarrow> string list" where
  "lower_flatten r items = remdups (lower_flatten_loop r items [])"

definition extract_tasks :: "(pyval \<Rightarrow> string) \<Rightarrow> pydict option \<Rightarrow> string list" where
  "extract_tasks r cdata =
     (let c = card_or_empty cdata in
      lower_flatten r (normalize_list
        (py_or (dict_get c ''task_categories'') (py_or (dict_get c ''task_ids'') (dict_get c ''tasks'')))))"

definition extract_languages :: "(pyval \<Rightarrow> string) \<Rightarrow> pydict option \<Rightarrow> string list" where
  "extract_languages r cdata =
     (let c = card_or_empty cdata in
      lower_flatten r (normalize_list
        (py_or (dict_get c ''language'') (py_or (dict_get c ''languages'') (dict_get c ''langs'')))))"

text \<open>
  The object the catalog API returns for a dataset. \<^verbatim>\<open>id\<close> is always there; the other
  attributes are read with \<^verbatim>\<open>getattr(info, name, None)\<close>, so a missing attribute and
  one that is \<^verbatim>\<open>None\<close> are both \<open>None\<close>.
\<close>

record dataset_info =
  info_id :: string
  info_downloads :: "int option"
  info_likes :: "int option"
  info_lastModified :: "int option"
  info_cardData :: "pydict option"

text \<open>The dictionary \<^verbatim>\<open>build_dataset_record\<close> returns, one field per key.\<close>

record dataset_record =
  rec_id :: string
  rec_downloads :: "int option"
  rec_likes :: "int option"
  rec_last_modified :: "int option"
  rec_card :: "pydict option"
  rec_tasks :: "string list"
  rec_languages :: "string list"
  rec_license :: pyval

definition build_dataset_record :: "(pyval \<Rightarrow> string) \<Rightarrow> dataset_info \<Rightarrow> dataset_record" where
  "build_dataset_record r info =
     (let cdata = info_cardData info;
          tasks = extract_tasks r cdata;
          langs = extract_languages r cdata
      in \<lparr> rec_id = info_id info,
           rec_downloads = info_downloads info,
           rec_likes = info_likes info,
           rec_last_modified = info_lastModified info,
           rec_card = cdata,
           rec_tasks = tasks,
           rec_languages = langs,
           rec_license = dict_get (card_or_empty cdata) ''license'' \<rparr>)"

section \<open>hf\_top\_datasets\_ui: listing with filters\<close>

text \<open>
  The tests of the loop body of \<^verbatim>\<open>list_all_time\<close> and \<^verbatim>\<open>list_trending\<close>, in the
  source's order: a record is appended when none of them says \<^verbatim>\<open>continue\<close>.
  \<open>search\<close> is the search text already stripped and lowered.
\<close>

definition search_ok :: "(pyval \<Rightarrow> string) \<Rightarrow> string \<Rightarrow> dataset_record \<Rightarrow> bool" where
  "search_ok r search rc =
     (if search \<noteq> []
      then (let pretty = py_or (dict_get (card_or_empty (rec_card rc)) ''pretty_name'') (PStr [])
            in \<not> (\<not> substring_in search (lower (rec_id rc))
                  \<and> \<not> substring_in search (lower (py_str r pretty))))
      else True)"

definition task_ok :: "string \<Rightarrow> dataset_record \<Rightarrow> bool" where
  "task_ok task rc = (\<not> (task \<noteq> ''Any'' \<and> lower task \<notin> set (rec_tasks rc)))"

definition language_ok :: "string \<Rightarrow> dataset_record \<Rightarrow> bool" where
  "language_ok language rc =
     (if language \<noteq> ''Any''
      then (if language = ''multi''
            then (length (rec_languages rc) > 1 \<or> ''multilingual'' \<in> set (rec_languages rc))
            else lower language \<in> set (rec_languages rc))
      else True)"

definition license_ok :: "bool \<Rightarrow> dataset_record \<Rightarrow> bool" where
  "license_ok require_license rc = (\<not> (require_license \<and> \<not> truthy (rec_license rc)))"

definition carddata_ok :: "bool \<Rightarrow> dataset_record \<Rightarrow> bool" where
  "carddata_ok require_carddata rc =
     (\<not> (require_carddata \<and> \<not> (case rec_card rc of None \<Rightarrow> False | Some d \<Rightarrow> d \<noteq> [])))"

definition keep :: "(pyval \<Rightarrow> string) \<Rightarrow> string \<Rightarrow> string \<Rightarrow> string \<Rightarrow> bool \<Rightarrow> bool
    \<Rightarrow> dataset_record \<Rightarrow> bool" where
  "keep r search task language require_license require_carddata rc =
     (search_ok r search rc \<and> task_ok task rc \<and> language_ok language rc
      \<and> license_ok require_license rc \<and> carddata_ok require_carddata rc)"

text \<open>
  The loop over the fetched objects. A kept record is appended first and the length is
  compared with \<open>limit\<close> afterwards, which ends the loop (\<^verbatim>\<open>break\<close>).
\<close>

fun listing_loop :: "(dataset_record \<Rightarrow> bool) \<Rightarrow> int \<Rightarrow> dataset_record list
    \<Rightarrow> dataset_record list \<Rightarrow> dataset_record list" where
  "listing_loop p limit [] records = records"
| "listing_loop p limit (rc # rest) records =
     (if \<not> p rc then listing_loop p limit rest records
      else (let records' = records @ [rc] in
            if int (length records') \<ge> limit then records'
            else listing_loop p limit rest records'))"

text \<open>
  \<^verbatim>\<open>list_all_time\<close>. The answer of \<^verbatim>\<open>api.list_datasets\<close> is the argument \<open>lst\<close>:
  the objects in the order the API ranked them, or \<open>Inl\<close> the exception it raised, which
  the function does not catch.
\<close>

definition list_all_time :: "(pyval \<Rightarrow> string) \<Rightarrow> string + dataset_info list \<Rightarrow> int \<Rightarrow> string
    \<Rightarrow> string \<Rightarrow> string \<Rightarrow> bool \<Rightarrow> bool \<Rightarrow> string + dataset_record list" where
  "list_all_time r lst limit search_text task language require_license require_carddata =
     (case lst of
        Inl e \<Rightarrow> Inl e
      | Inr infos \<Rightarrow>
          (let search = lower (strip search_text)
           in Inr (listing_loop (keep r search task language require_license require_carddata)
                     limit (map (build_dataset_record r) infos) [])))"

text \<open>
  \<^verbatim>\<open>list_trending\<close>. \<open>http_get url\<close> is what \<^verbatim>\<open>requests.get\<close>,
  \<^verbatim>\<open>raise_for_status\<close> and \<^verbatim>\<open>resp.json()\<close> make of the request together: the decoded
  array of objects, or \<open>Inl\<close> the exception one of the three raised.
  \<open>cached_dataset_info\<close> is the memoized detail request, \<open>Inl\<close> when it raises; an
  identifier that is not a string makes it raise.
\<close>

fun trending_ids :: "pydict list \<Rightarrow> pyval list" where
  "trending_ids [] = []"
| "trending_ids (item # data) =
     (let rid = py_or (dict_get item ''repoId'') (py_or (dict_get item ''id'') (dict_get item ''name''))
      in if truthy rid then rid # trending_ids data else trending_ids data)"

definition info_of_rid :: "(string \<Rightarrow> string + dataset_info) \<Rightarrow> pyval \<Rightarrow> string + dataset_info" where
  "info_of_rid cached_dataset_info rid =
     (case rid of PStr s \<Rightarrow> cached_dataset_info s | _ \<Rightarrow> Inl ''TypeError'')"

fun trending_loop :: "(pyval \<Rightarrow> string) \<Rightarrow> (string \<Rightarrow> string + dataset_info)
    \<Rightarrow> (dataset_record \<Rightarrow> bool) \<Rightarrow> int \<Rightarrow> pyval list \<Rightarrow> dataset_record list
    \<Rightarrow> dataset_record list" where
  "trending_loop r cdi p limit [] records = records"
| "trending_loop r cdi p limit (rid # rest) records =
     (case info_of_rid cdi rid of
        Inl e \<Rightarrow> trending_loop r cdi p limit rest records
      | Inr info \<Rightarrow>
          (let rc = build_dataset_record r info in
           if \<not> p rc then trending_loop r cdi p limit rest records
           else (let records' = records @ [rc] in
                 if int (length records') \<ge> limit then records'
                 else trending_loop r cdi p limit rest records')))"

definition list_trending :: "(pyval \<Rightarrow> string) \<Rightarrow> (string \<Rightarrow> string + pydict list)
    \<Rightarrow> (string \<Rightarrow> string + dataset_info) \<Rightarrow> string \<Rightarrow> int \<Rightarrow> string \<Rightarrow> string \<Rightarrow> string
    \<Rightarrow> bool \<Rightarrow> bool \<Rightarrow> dataset_record list" where
  "list_trending r http_get cached_dataset_info period limit search_text task language
       require_license require_carddata =
     (let url = ''https://huggingface.co/api/trending/datasets?period='' @ period in
      case http_get url of
        Inl e \<Rightarrow> []
      | Inr data \<Rightarrow>
          (let ids = trending_ids data;
               search = lower (strip search_text)
           in trending_loop r cached_dataset_info
                (keep r search task language require_license require_carddata) limit ids []))"

section \<open>ButtonBox\<close>

text \<open>
  The three files carry the same selection widget. A \<^verbatim>\<open>Button\<close> is an object: the box
  holds references to its buttons, and \<open>objects\<close> gives the attributes of each reference.
  \<open>button\<close> and \<open>position\<close> are the selection: \<^verbatim>\<open>None\<close> and \<open>-1\<close> when nothing is selected.
\<close>

record Button =
  description :: string
  tooltip :: string
  button_color :: "string option"

record ButtonBox =
  objects :: "nat \<Rightarrow> Button"
  next_ref :: nat
  buttons :: "nat list"
  children :: "nat list"
  position :: int
  button :: "nat option"
  maxchar :: nat
  color :: string

datatype py_error = IndexError | AttributeError | TypeError




text \<open>\<^verbatim>\<open>description if len(description) <= maxchar else description[:maxchar-3] + '...'\<close>\<close>

definition shorten :: "nat \<Rightarrow> string \<Rightarrow> string" where
  "shorten m d =
     (if length d \<le> m then d
      else (if int m - 3 \<ge> 0 then take (m - 3) d else take (length d - (3 - m)) d) @ ''...'')"

text \<open>\<^verbatim>\<open>append(description, select=False)\<close>, the form every caller in the three files uses.\<close>

definition append_button :: "ButtonBox \<Rightarrow> string \<Rightarrow> ButtonBox" where
  "append_button bb d =
     (let b = next_ref bb in
      bb\<lparr>objects := (objects bb)(b := \<lparr>description = shorten (maxchar bb) d, tooltip = d, button_color = None\<rparr>),
         next_ref := Suc b,
         buttons := buttons bb @ [b],
         children := children bb @ [b]\<rparr>)"

text \<open>
  \<^verbatim>\<open>remove(position=None)\<close> of hf\_top\_datasets\_ui: the argument is replaced by the
  selected position only when it is \<^verbatim>\<open>None\<close>.
\<close>

definition remove :: "ButtonBox \<Rightarrow> int option \<Rightarrow> ButtonBox" where
  "remove bb pos =
     (let p = (case pos of None \<Rightarrow> position bb | Some q \<Rightarrow> q) in
      if \<not> p < int (length (buttons bb)) \<or> p < 0 then bb
      else bb\<lparr>children := take (nat p) (children bb) @ drop (nat (p + 1)) (children bb),
              buttons := take (nat p) (buttons bb) @ drop (nat (p + 1)) (buttons bb),
              button := None,
              position := - 1\<rparr>)"

text \<open>
  \<^verbatim>\<open>remove(position=None)\<close> of hf\_datasets\_viewer and hf\_datasets\_explorer: the
  tests are \<^verbatim>\<open>not position\<close>, which holds for \<^verbatim>\<open>None\<close> and for \<open>0\<close>.
\<close>

definition remove_viewer :: "ButtonBox \<Rightarrow> int option \<Rightarrow> ButtonBox" where
  "remove_viewer bb pos =
     (let p = (case pos of None \<Rightarrow> position bb | Some q \<Rightarrow> if q = 0 then position bb else q) in
      if p = 0 \<or> \<not> p < int (length (buttons bb)) \<or> p < 0 then bb
      else bb\<lparr>children := take (nat p) (children bb) @ drop (nat (p + 1)) (children bb),
              buttons := take (nat p) (buttons bb) @ drop (nat (p + 1)) (buttons bb),
              button := None,
              position := - 1\<rparr>)"

section \<open>hf\_top\_datasets\_ui: selection\<close>

text \<open>
  The part of \<^verbatim>\<open>render_ui\<close> the selection touches: the button box, the dictionary
  \<^verbatim>\<open>_current_records\<close> of the last refresh and the text of the details pane.
  \<^verbatim>\<open>render_details\<close> is taken as a parameter, \<open>Inl\<close> when it raises.
\<close>

record ui_state =
  bbox :: ButtonBox
  current_records :: "string \<rightharpoonup> dataset_record"
  details :: string






text \<open>
  The buttons of the box all carry the id of a current record. \<^verbatim>\<open>refresh\<close> makes the
  buttons and \<^verbatim>\<open>_current_records\<close> from the same list, and nothing else in
  \<^verbatim>\<open>render_ui\<close> changes either of them.
\<close>

definition listed :: "ui_state \<Rightarrow> bool" where
  "listed ui =
     list_all (\<lambda>b. current_records ui (tooltip (objects (bbox ui) b)) \<noteq> None) (buttons (bbox ui))"

section \<open>hf\_datasets\_explorer: selection\<close>




section \<open>hf\_datasets\_viewer: DatasetManager\<close>

text \<open>
  A \<^verbatim>\<open>datetime\<close> is naive or aware of its time zone. Either way it stands for an instant,
  a number of seconds on the clock that \<^verbatim>\<open>time.time()\<close> reads as well; the rounding of
  floating point numbers is not modelled. The catalog sends aware datetimes, and
  \<^verbatim>\<open>datetime.now()\<close> is naive. Python orders two naive datetimes and two aware ones by
  their instants; for a naive and an aware one, and for \<^verbatim>\<open>None\<close>, \<^verbatim>\<open><\<close> and \<^verbatim>\<open>>=\<close>
  raise \<^verbatim>\<open>TypeError\<close>.
\<close>

datatype pydatetime = Naive real | Aware real

fun instant :: "pydatetime \<Rightarrow> real" where
  "instant (Naive t) = t"
| "instant (Aware t) = t"

fun is_naive :: "pydatetime \<Rightarrow> bool" where
  "is_naive (Naive t) = True"
| "is_naive (Aware t) = False"

fun naive_key :: "pydatetime option \<Rightarrow> bool" where
  "naive_key (Some (Naive t)) = True"
| "naive_key k = False"

fun aware_key :: "pydatetime option \<Rightarrow> bool" where
  "aware_key (Some (Aware t)) = True"
| "aware_key k = False"

fun key_instant :: "pydatetime option \<Rightarrow> real" where
  "key_instant (Some dt) = instant dt"
| "key_instant None = 0"

text \<open>
  The dataclass \<^verbatim>\<open>DatasetStats\<close>. \<^verbatim>\<open>created_at\<close> is declared a \<^verbatim>\<open>datetime\<close>, but
  \<^verbatim>\<open>get_dataset_stats\<close> stores \<^verbatim>\<open>None\<close> in it when the catalog has \<^verbatim>\<open>None\<close> there.
\<close>

record DatasetStats =
  stats_id :: string
  author :: string
  name :: string
  stats_description :: string
  downloads :: int
  likes :: int
  created_at :: "pydatetime option"
  updated_at :: pydatetime
  tags :: "string list"
  url :: string
  size_bytes :: "int option"
  file_count :: "nat option"

text \<open>
  What \<^verbatim>\<open>dataset_info(dataset_id)\<close> returns, as far as \<^verbatim>\<open>get_dataset_stats\<close> reads it
  with \<^verbatim>\<open>getattr\<close>: \<open>None\<close> is an attribute that is missing or \<^verbatim>\<open>None\<close>. For
  \<^verbatim>\<open>created_at\<close> and \<^verbatim>\<open>siblings\<close> the two differ: \<open>None\<close> is no attribute,
  \<open>Some None\<close> an attribute that is \<^verbatim>\<open>None\<close>. \<^verbatim>\<open>created_at\<close> is then kept as
  \<^verbatim>\<open>None\<close> (its default has no \<^verbatim>\<open>or\<close>), and \<^verbatim>\<open>len\<close> of such \<^verbatim>\<open>siblings\<close> raises.
\<close>

record hub_info =
  hub_description :: "string option"
  hub_downloads :: "int option"
  hub_likes :: "int option"
  hub_created_at :: "pydatetime option option"
  hub_last_modified :: "pydatetime option"
  hub_tags :: "string list option"
  hub_size_in_bytes :: "int option"
  hub_siblings :: "string list option option"

text \<open>
  The remote catalog: the answer to a detail request and to a list request (with the
  \<^verbatim>\<open>limit\<close> passed, if any), \<open>Inl\<close> when the call raises, and the time a request takes.
\<close>

record hub =
  hub_dataset_info :: "string \<Rightarrow> string + hub_info"
  hub_list_datasets :: "int option \<Rightarrow> string + string list"
  hub_latency :: real

datatype request = ListDatasets "int option" | DatasetInfo string

text \<open>
  The state of a \<^verbatim>\<open>DatasetManager\<close>: the two dictionaries \<^verbatim>\<open>cache\<close> and
  \<^verbatim>\<open>_stats_cache\<close> and the table of the \<^verbatim>\<open>lru_cache\<close> decorator of
  \<^verbatim>\<open>get_dataset_stats\<close>, most recently used entry first. With them go the clock and the
  log of the requests sent to the catalog, latest first. The key of \<^verbatim>\<open>cache\<close> is the
  string \<^verbatim>\<open>f"{time_period}_{limit}_{sort_by}"\<close>.
\<close>

record DatasetManager =
  cache :: "string \<rightharpoonup> (real \<times> DatasetStats list)"
  stats_cache :: "string \<rightharpoonup> (real \<times> DatasetStats)"
  lru :: "(string \<times> DatasetStats option) list"
  clock :: real
  requests :: "request list"

definition cache_timeout :: real where
  "cache_timeout = 3600"

definition lru_maxsize :: nat where
  "lru_maxsize = 100"

text \<open>\<^verbatim>\<open>str(n)\<close> of an integer, in decimal, and the key of the list cache.\<close>

definition digit_char :: "nat \<Rightarrow> char" where
  "digit_char n = ''0123456789'' ! n"

function str_nat :: "nat \<Rightarrow> string" where
  "str_nat n = (if n < 10 then [digit_char n] else str_nat (n div 10) @ [digit_char (n mod 10)])"
  by pat_completeness auto
termination
  by (relation "measure (\<lambda>n. n)") auto

declare str_nat.simps [simp del]

definition str_int :: "int \<Rightarrow> string" where
  "str_int i = (if i < 0 then CHR ''-'' # str_nat (nat (- i)) else str_nat (nat i))"

definition cache_key :: "string \<Rightarrow> int \<Rightarrow> string \<Rightarrow> string" where
  "cache_key time_period limit sort_by = time_period @ ''_'' @ str_int limit @ ''_'' @ sort_by"

text \<open>Sending a request: it is logged and the clock moves on by the latency.\<close>

definition send :: "hub \<Rightarrow> request \<Rightarrow> DatasetManager \<Rightarrow> DatasetManager" where
  "send h rq st = st\<lparr>clock := clock st + hub_latency h, requests := rq # requests st\<rparr>"

text \<open>
  The construction of the \<^verbatim>\<open>DatasetStats\<close> in \<^verbatim>\<open>get_dataset_stats\<close>; \<open>now\<close> is
  \<^verbatim>\<open>datetime.now()\<close>, a naive datetime. \<open>None\<close> is the exception of \<^verbatim>\<open>len(None)\<close>.
\<close>

definition make_stats :: "string \<Rightarrow> hub_info \<Rightarrow> real \<Rightarrow> DatasetStats option" where
  "make_stats dataset_id info now =
     (case hub_siblings info of
        Some None \<Rightarrow> None
      | fc \<Rightarrow>
          Some \<lparr> stats_id = dataset_id,
                 author = (if CHR ''/'' \<in> set dataset_id
                           then takeWhile (\<lambda>c. c \<noteq> CHR ''/'') dataset_id else ''unknown''),
                 name = rev (takeWhile (\<lambda>c. c \<noteq> CHR ''/'') (rev dataset_id)),
                 stats_description = (case hub_description info of None \<Rightarrow> [] | Some d \<Rightarrow> d),
                 downloads = (case hub_downloads info of None \<Rightarrow> 0 | Some d \<Rightarrow> d),
                 likes = (case hub_likes info of None \<Rightarrow> 0 | Some l \<Rightarrow> l),
                 created_at = (case hub_created_at info of None \<Rightarrow> Some (Naive now) | Some t \<Rightarrow> t),
                 updated_at = (case hub_last_modified info of None \<Rightarrow> Naive now | Some t \<Rightarrow> t),
                 tags = (case hub_tags info of None \<Rightarrow> [] | Some ts \<Rightarrow> ts),
                 url = ''https://huggingface.co/datasets/'' @ dataset_id,
                 size_bytes = hub_size_in_bytes info,
                 file_count = (case fc of Some (Some sib) \<Rightarrow> Some (length sib) | _ \<Rightarrow> None) \<rparr>)"

text \<open>
  The body of \<^verbatim>\<open>get_dataset_stats\<close>: an entry of \<^verbatim>\<open>_stats_cache\<close> younger than the
  timeout is returned; otherwise the catalog is asked and the answer stored with the time
  read then. Any exception gives \<^verbatim>\<open>None\<close>.
\<close>

definition get_dataset_stats_body :: "hub \<Rightarrow> string \<Rightarrow> DatasetManager
    \<Rightarrow> DatasetStats option \<times> DatasetManager" where
  "get_dataset_stats_body h dataset_id st =
     (case (case stats_cache st dataset_id of
              Some (cache_time, stats) \<Rightarrow>
                if clock st - cache_time < cache_timeout then Some stats else None
            | None \<Rightarrow> None) of
        Some stats \<Rightarrow> (Some stats, st)
      | None \<Rightarrow>
          (let st1 = send h (DatasetInfo dataset_id) st in
           case hub_dataset_info h dataset_id of
             Inl e \<Rightarrow> (None, st1)
           | Inr info \<Rightarrow>
               (case make_stats dataset_id info (clock st1) of
                  None \<Rightarrow> (None, st1)
                | Some stats \<Rightarrow>
                    (Some stats,
                     st1\<lparr>stats_cache := (stats_cache st1)(dataset_id \<mapsto> (clock st1, stats))\<rparr>))))"

text \<open>
  \<^verbatim>\<open>get_dataset_stats\<close> as it is called: through \<^verbatim>\<open>@lru_cache(maxsize=100)\<close>. An
  argument found in the table is answered from it and becomes the most recently used; the
  body runs for any other, and its result, \<^verbatim>\<open>None\<close> included, enters the table, which
  drops its least recently used entry when it is full.
\<close>

definition get_dataset_stats :: "hub \<Rightarrow> string \<Rightarrow> DatasetManager
    \<Rightarrow> DatasetStats option \<times> DatasetManager" where
  "get_dataset_stats h dataset_id st =
     (case map_of (lru st) dataset_id of
        Some res \<Rightarrow>
          (res, st\<lparr>lru := (dataset_id, res) # filter (\<lambda>e. fst e \<noteq> dataset_id) (lru st)\<rparr>)
      | None \<Rightarrow>
          (let (res, st1) = get_dataset_stats_body h dataset_id st
           in (res, st1\<lparr>lru := take lru_maxsize ((dataset_id, res) # lru st1)\<rparr>)))"

text \<open>
  \<^verbatim>\<open>list.sort(key=k, reverse=True)\<close>: Python's sort is stable, and with
  \<^verbatim>\<open>reverse=True\<close> elements with equal keys keep their order. The model is an insertion
  sort that puts an element before the first one whose key is not larger.
\<close>

fun insort_desc :: "('a \<Rightarrow> 'k::linorder) \<Rightarrow> 'a \<Rightarrow> 'a list \<Rightarrow> 'a list" where
  "insort_desc k x [] = [x]"
| "insort_desc k x (y # ys) = (if k x \<ge> k y then x # y # ys else y # insort_desc k x ys)"

definition sort_reverse :: "('a \<Rightarrow> 'k::linorder) \<Rightarrow> 'a list \<Rightarrow> 'a list" where
  "sort_reverse k xs = foldr (insort_desc k) xs []"

text \<open>
  The same sort on keys that are datetimes or \<^verbatim>\<open>None\<close>. The sort raises as soon as it
  compares two keys that Python does not order. Sorting a list of two or more elements, it
  compares each element with another one, and it can only finish when its comparisons
  link all elements; so it finishes exactly when the list has at most one element or all
  keys are naive datetimes or all are aware ones, and then orders by the instants.
\<close>

definition orderable :: "pydatetime option list \<Rightarrow> bool" where
  "orderable ks = (length ks \<le> 1 \<or> list_all naive_key ks \<or> list_all aware_key ks)"

definition sort_reverse_datetime :: "('a \<Rightarrow> pydatetime option) \<Rightarrow> 'a list \<Rightarrow> py_error + 'a list" where
  "sort_reverse_datetime k xs =
     (if orderable (map k xs) then Inr (sort_reverse (\<lambda>x. key_instant (k x)) xs)
      else Inl TypeError)"

text \<open>The slice \<^verbatim>\<open>xs[:n]\<close>; a negative \<open>n\<close> counts from the end.\<close>

definition slice_to :: "int \<Rightarrow> 'a list \<Rightarrow> 'a list" where
  "slice_to n xs = (if n \<ge> 0 then take (nat n) xs else take (length xs - nat (- n)) xs)"

text \<open>
  \<^verbatim>\<open>_apply_filters(datasets, time_period, sort_by)\<close>; \<open>now\<close> is \<^verbatim>\<open>datetime.now()\<close>.
  Its first half, the time filter, is \<open>time_filter\<close>: the list comprehension compares
  the \<^verbatim>\<open>updated_at\<close> of every item with the naive cutoff, and raises at an aware one. A
  period other than the four known ones leaves the cutoff at \<open>now\<close>; a sort key other
  than the four known ones leaves the order as it is. \<open>Inl\<close> is the exception raised.
\<close>

definition days :: "real \<Rightarrow> real" where
  "days n = n * 86400"

definition time_filter :: "real \<Rightarrow> string \<Rightarrow> DatasetStats list \<Rightarrow> py_error + DatasetStats list" where
  "time_filter now time_period datasets =
     (if time_period \<noteq> ''all''
      then (let cutoff_date =
                  (if time_period = ''7d'' then now - days 7
                   else if time_period = ''30d'' then now - days 30
                   else if time_period = ''90d'' then now - days 90
                   else now)
            in if list_all (\<lambda>d. is_naive (updated_at d)) datasets
               then Inr (filter (\<lambda>d. instant (updated_at d) \<ge> cutoff_date) datasets)
               else Inl TypeError)
      else Inr datasets)"

definition apply_filters :: "real \<Rightarrow> DatasetStats list \<Rightarrow> string \<Rightarrow> string
    \<Rightarrow> py_error + DatasetStats list" where
  "apply_filters now datasets time_period sort_by =
     (case time_filter now time_period datasets of
        Inl e \<Rightarrow> Inl e
      | Inr datasets1 \<Rightarrow>
          if sort_by = ''downloads'' then Inr (sort_reverse downloads datasets1)
          else if sort_by = ''likes'' then Inr (sort_reverse likes datasets1)
          else if sort_by = ''updated'' then sort_reverse_datetime (\<lambda>d. Some (updated_at d)) datasets1
          else if sort_by = ''created'' then sort_reverse_datetime created_at datasets1
          else Inr datasets1)"

text \<open>
  The loop of \<^verbatim>\<open>get_popular_datasets\<close> over the listed ids: it ends as soon as
  \<open>limit\<close> statistics are collected, and skips an id whose statistics are \<^verbatim>\<open>None\<close>.
\<close>

fun collect_stats :: "hub \<Rightarrow> int \<Rightarrow> string list \<Rightarrow> DatasetStats list \<Rightarrow> DatasetManager
    \<Rightarrow> DatasetStats list \<times> DatasetManager" where
  "collect_stats h limit [] dataset_stats st = (dataset_stats, st)"
| "collect_stats h limit (d # ds) dataset_stats st =
     (if int (length dataset_stats) \<ge> limit then (dataset_stats, st)
      else (case get_dataset_stats h d st of
              (Some stats, st1) \<Rightarrow> collect_stats h limit ds (dataset_stats @ [stats]) st1
            | (None, st1) \<Rightarrow> collect_stats h limit ds dataset_stats st1))"

text \<open>
  The list request of \<^verbatim>\<open>get_popular_datasets\<close>: with \<^verbatim>\<open>limit * 3\<close> first, and
  without a limit when that raises. \<open>Inl\<close> is the exception of the second call.
\<close>

definition fetch_list :: "hub \<Rightarrow> int \<Rightarrow> DatasetManager \<Rightarrow> (string + string list) \<times> DatasetManager" where
  "fetch_list h limit st =
     (let st1 = send h (ListDatasets (Some (limit * 3))) st in
      case hub_list_datasets h (Some (limit * 3)) of
        Inr ds \<Rightarrow> (Inr ds, st1)
      | Inl e \<Rightarrow> (hub_list_datasets h None, send h (ListDatasets None) st1))"

text \<open>
  \<^verbatim>\<open>get_popular_datasets(time_period, limit, sort_by)\<close>: a cached list younger than the
  timeout is returned; otherwise the list is fetched, cut and sorted, stored with the time
  read then, and returned. Any exception, that of \<^verbatim>\<open>_apply_filters\<close> included, gives
  the empty list and stores nothing.
\<close>

definition get_popular_datasets :: "hub \<Rightarrow> string \<Rightarrow> int \<Rightarrow> string \<Rightarrow> DatasetManager
    \<Rightarrow> DatasetStats list \<times> DatasetManager" where
  "get_popular_datasets h time_period limit sort_by st =
     (let key = cache_key time_period limit sort_by in
      case (case cache st key of
              Some (cache_time, data) \<Rightarrow>
                if clock st - cache_time < cache_timeout then Some data else None
            | None \<Rightarrow> None) of
        Some data \<Rightarrow> (data, st)
      | None \<Rightarrow>
          (case fetch_list h limit st of
             (Inl e, st1) \<Rightarrow> ([], st1)
           | (Inr ds, st1) \<Rightarrow>
               (let (dataset_stats, st2) = collect_stats h limit ds [] st1 in
                case apply_filters (clock st2) dataset_stats time_period sort_by of
                  Inl e \<Rightarrow> ([], st2)
                | Inr filtered_stats \<Rightarrow>
                    (slice_to limit filtered_stats,
                     st2\<lparr>cache := (cache st2)(key \<mapsto> (clock st2, slice_to limit filtered_stats))\<rparr>))))"

text \<open>The time that passes between two calls.\<close>

definition wait :: "real \<Rightarrow> DatasetManager \<Rightarrow> DatasetManager" where
  "wait d st = st\<lparr>clock := clock st + d\<rparr>"

section \<open>Initial states\<close>

text \<open>
  \<^verbatim>\<open>ButtonBox([])\<close>, as the three files create their box: no button, nothing selected,
  the default \<^verbatim>\<open>maxchar\<close> and colour.
\<close>

definition init_box :: ButtonBox where
  "init_box =
     \<lparr>objects = (\<lambda>x. \<lparr>description = [], tooltip = [], button_color = None\<rparr>),
      next_ref = 0, buttons = [], children = [], position = - 1, button = None,
      maxchar = 60, color = ''powderblue''\<rparr>"

text \<open>\<^verbatim>\<open>DatasetManager()\<close> at the time \<open>t\<close>: empty caches, no request sent yet.\<close>

definition init_manager :: "real \<Rightarrow> DatasetManager" where
  "init_manager t =
     \<lparr>cache = Map.empty, stats_cache = Map.empty, lru = [], clock = t, requests = []\<rparr>"

text \<open>
  A catalog for the examples: it lists the datasets \<open>a\<close>, \<open>b\<close> and \<open>c\<close> in this order,
  with 100, 500 and 500 downloads, and answers a request in a second.
\<close>

definition example_hub :: hub where
  "example_hub =
     \<lparr>hub_dataset_info = (\<lambda>i. Inr \<lparr>hub_description = None,
                                     hub_downloads = Some (if i = ''a'' then 100 else 500),
                                     hub_likes = None, hub_created_at = Some (Some (Aware 0)),
                                     hub_last_modified = Some (Aware 0), hub_tags = None,
                                     hub_size_in_bytes = None, hub_siblings = None\<rparr>),
      hub_list_datasets = (\<lambda>l. Inr [''a'', ''b'', ''c'']),
      hub_latency = 1\<rparr>"

text \<open>
  The statistics of a dataset \<open>i\<close> with \<open>d\<close> downloads and nothing else known, made
  at the time \<open>0\<close>.
\<close>

definition example_stats :: "string \<Rightarrow> int \<Rightarrow> DatasetStats" where
  "example_stats i d =
     \<lparr>stats_id = i, author = ''unknown'', name = i, stats_description = [], downloads = d,
      likes = 0, created_at = Some (Naive 0), updated_at = Naive 0, tags = [],
      url = ''https://huggingface.co/datasets/'' @ i, size_bytes = None, file_count = None\<rparr>"

text \<open>An info object with an id and the languages of its card, nothing else.\<close>

definition example_info :: "string \<Rightarrow> pyval \<Rightarrow> dataset_info" where
  "example_info i langs =
     \<lparr>info_id = i, info_downloads = None, info_likes = None, info_lastModified = None,
      info_cardData = Some [(''language'', langs)]\<rparr>"

text \<open>A box with the buttons \<open>a/x\<close> and \<open>b/y\<close>, the first of them selected.\<close>

definition example_box :: ButtonBox where
  "example_box =
     (append_button (append_button init_box ''a/x'') ''b/y'')\<lparr>position := 0, button := Some 0\<rparr>"

section \<open>Properties\<close>

lemma lower_char_idem: "lower_char (lower_char c) = lower_char c"
  by (cases c) (simp add: lower_char_def Let_def)

lemma lower_idem: "lower (lower s) = lower s"
  by (simp add: lower_def lower_char_idem)

lemma lower_flatten_loop_concat:
  "lower_flatten_loop r items out = out @ concat (map (flatten_item r) items)"
  by (induction items arbitrary: out) simp_all

lemma dict_str_values_strings:
  "dict_str_values (map (\<lambda>(k, s). (k, PStr s)) kss) = map (\<lambda>(k, s). lower s) kss"
  by (induction kss) auto

lemma dict_str_values_lower: "map lower (dict_str_values kvs) = dict_str_values kvs"
  by (induction kvs rule: dict_str_values.induct) (simp_all add: lower_idem)

lemma flatten_item_lower: "map lower (flatten_item r x) = flatten_item r x"
  by (cases x) (simp_all add: lower_idem dict_str_values_lower)

lemma concat_flatten_lower:
  "map lower (concat (map (flatten_item r) items)) = concat (map (flatten_item r) items)"
  by (induction items) (simp_all add: flatten_item_lower)

lemma map_remdups_fixed: "map f xs = xs \<Longrightarrow> map f (remdups xs) = remdups xs"
  by (induction xs) (auto split: if_splits)

lemma lower_flatten_lower: "map lower (lower_flatten r items) = lower_flatten r items"
  by (simp add: lower_flatten_def lower_flatten_loop_concat map_remdups_fixed concat_flatten_lower)

lemma lower_flatten_distinct: "distinct (lower_flatten r items)"
  by (simp add: lower_flatten_def)

lemma lf_str: "set (lower_flatten r (normalize_list (PStr s))) = {lower s}"
  by (simp add: lower_flatten_def py_str_def)

lemma lf_list: "set (lower_flatten r (normalize_list (PList (map PStr ss)))) = lower ` set ss"
  by (induction ss) (auto simp add: lower_flatten_def lower_flatten_loop_concat py_str_def)

lemma lf_dict: "set (lower_flatten r (normalize_list (PDict (map (\<lambda>(k, s). (k, PStr s)) kss)))) = lower ` snd ` set kss"
  by (induction kss) (auto simp add: lower_flatten_def lower_flatten_loop_concat py_str_def)

lemma listing_loop_take:
  "listing_loop p limit xs acc =
     acc @ take (max 1 (nat (limit - int (length acc)))) (filter p xs)"
proof (induction xs arbitrary: acc)
  case Nil
  then show ?case by simp
next
  case (Cons x xs)
  show ?case
  proof (cases "p x")
    case False
    then show ?thesis using Cons.IH by simp
  next
    case True
    show ?thesis
    proof (cases "int (length acc) + 1 \<ge> limit")
      case True
      then have "max 1 (nat (limit - int (length acc))) = 1" by auto
      with True \<open>p x\<close> show ?thesis by (simp add: Let_def)
    next
      case False
      then have L: "limit - int (length acc) \<ge> 2" by simp
      have n1: "max 1 (nat (limit - int (length (acc @ [x])))) = nat (limit - int (length acc)) - 1"
        using L by simp
      have n2: "max 1 (nat (limit - int (length acc))) = nat (limit - int (length acc))"
        using L by simp
      have n3: "nat (limit - int (length acc)) \<noteq> 0"
        using L by simp
      from False \<open>p x\<close> have "listing_loop p limit (x # xs) acc = listing_loop p limit xs (acc @ [x])"
        by (simp add: Let_def)
      also have "\<dots> = (acc @ [x]) @ take (max 1 (nat (limit - int (length (acc @ [x]))))) (filter p xs)"
        by (rule Cons.IH)
      also have "\<dots> = acc @ take (max 1 (nat (limit - int (length acc)))) (filter p (x # xs))"
        unfolding n1 n2 using \<open>p x\<close> n3 by (simp add: take_Cons')
      finally show ?thesis .
    qed
  qed
qed

lemma set_insort_desc: "set (insort_desc k x ys) = insert x (set ys)"
  by (induction ys) auto

lemma set_sort_reverse: "set (sort_reverse k xs) = set xs"
  by (induction xs) (simp_all add: sort_reverse_def set_insort_desc)

lemma length_insort_desc: "length (insort_desc k x ys) = Suc (length ys)"
  by (induction ys) auto

lemma length_sort_reverse: "length (sort_reverse k xs) = length xs"
  by (induction xs) (simp_all add: sort_reverse_def length_insort_desc)

lemma sorted_insort_desc:
  "sorted_wrt (\<lambda>a b. k a \<ge> k b) ys \<Longrightarrow> sorted_wrt (\<lambda>a b. k a \<ge> k b) (insort_desc k x ys)"
  by (induction ys) (auto simp: set_insort_desc)

lemma sorted_sort_reverse: "sorted_wrt (\<lambda>a b. k a \<ge> k b) (sort_reverse k xs)"
  by (induction xs) (simp_all add: sort_reverse_def sorted_insort_desc)

lemma filter_insort_desc_other:
  "k x \<noteq> c \<Longrightarrow> filter (\<lambda>y. k y = c) (insort_desc k x ys) = filter (\<lambda>y. k y = c) ys"
  by (induction ys) auto

lemma filter_insort_desc_same:
  "sorted_wrt (\<lambda>a b. k a \<ge> k b) ys \<Longrightarrow>
   filter (\<lambda>y. k y = k x) (insort_desc k x ys) = x # filter (\<lambda>y. k y = k x) ys"
  by (induction ys) auto

lemma sort_reverse_stable:
  "filter (\<lambda>y. k y = c) (sort_reverse k xs) = filter (\<lambda>y. k y = c) xs"
proof (induction xs)
  case Nil
  show ?case by (simp add: sort_reverse_def)
next
  case (Cons x xs)
  have step: "sort_reverse k (x # xs) = insort_desc k x (sort_reverse k xs)"
    by (simp add: sort_reverse_def)
  show ?case
  proof (cases "k x = c")
    case True
    then show ?thesis
      using Cons.IH filter_insort_desc_same [of k "sort_reverse k xs" x] sorted_sort_reverse [of k xs]
      by (simp add: step)
  next
    case False
    then show ?thesis
      using Cons.IH by (simp add: step filter_insort_desc_other)
  qed
qed

lemma set_slice_to: "set (slice_to n xs) \<subseteq> set xs"
  by (auto simp: slice_to_def dest: in_set_takeD)


lemma time_filter_all: "time_filter now ''all'' ds = Inr ds"
  by (simp add: time_filter_def)

lemma set_time_filter: "time_filter now tp ds = Inr ds1 \<Longrightarrow> set ds1 \<subseteq> set ds"
  by (auto simp: time_filter_def Let_def split: if_splits)

lemma set_sort_reverse_datetime: "sort_reverse_datetime k xs = Inr ys \<Longrightarrow> set ys = set xs"
  by (auto simp: sort_reverse_datetime_def set_sort_reverse split: if_splits)

lemma set_apply_filters:
  assumes "apply_filters now ds tp sb = Inr out"
  shows "set out \<subseteq> set ds"
proof -
  from assms obtain ds1 where t: "time_filter now tp ds = Inr ds1"
    by (cases "time_filter now tp ds") (simp_all add: apply_filters_def)
  from assms t have "set out = set ds1"
    by (auto simp: apply_filters_def set_sort_reverse dest: set_sort_reverse_datetime split: if_splits)
  with set_time_filter [OF t] show ?thesis by simp
qed

text \<open>
  What holds of the sort in \<^verbatim>\<open>_apply_filters\<close>. By downloads and by likes it never
  fails once the time filter has passed, and is the stable descending sort
  (\<open>sort_reverse_stable\<close>, \<open>sorted_sort_reverse\<close>). By a timestamp it is that sort when the
  keys can be ordered, and an exception otherwise.
\<close>

lemma apply_filters_counters:
  assumes "time_filter now tp ds = Inr ds1"
  shows "apply_filters now ds tp ''downloads'' = Inr (sort_reverse downloads ds1)"
    and "apply_filters now ds tp ''likes'' = Inr (sort_reverse likes ds1)"
  using assms by (simp_all add: apply_filters_def)

lemma apply_filters_timestamps:
  assumes "time_filter now tp ds = Inr ds1"
  shows "apply_filters now ds tp ''updated''
           = (if orderable (map (\<lambda>d. Some (updated_at d)) ds1)
              then Inr (sort_reverse (\<lambda>d. instant (updated_at d)) ds1) else Inl TypeError)"
    and "apply_filters now ds tp ''created''
           = (if orderable (map created_at ds1)
              then Inr (sort_reverse (\<lambda>d. key_instant (created_at d)) ds1) else Inl TypeError)"
  using assms by (simp_all add: apply_filters_def sort_reverse_datetime_def)

lemma apply_filters_total:
  assumes "sb \<noteq> ''updated''" and "sb \<noteq> ''created''"
  shows "\<exists>out. apply_filters now ds ''all'' sb = Inr out"
  using assms by (simp add: apply_filters_def time_filter_all)

lemma sort_example:
  "slice_to 2 (sort_reverse downloads
      [a\<lparr>downloads := 100\<rparr>, b\<lparr>downloads := 500\<rparr>, c\<lparr>downloads := 500\<rparr>])
   = [b\<lparr>downloads := 500\<rparr>, c\<lparr>downloads := 500\<rparr>]"
  by (simp add: sort_reverse_def slice_to_def)

text \<open>
  Claim C3 on the program. The example of the claim, the downloads \<open>[a:100, b:500, c:500]\<close>
  with the limit 2, gives \<open>[b, a]\<close> through \<^verbatim>\<open>get_popular_datasets\<close>, not \<open>[b, c]\<close>.
  Sorting two datasets by \<open>created\<close> when the catalog has \<^verbatim>\<open>None\<close> for their creation
  date raises, and \<^verbatim>\<open>get_popular_datasets\<close> returns the empty list; so it does for the
  sort by \<open>updated\<close> when one date comes from the catalog and one is missing.
\<close>

theorem sort_fails_on_program_path:
  "map (\<lambda>d. (stats_id d, downloads d))
       (fst (get_popular_datasets example_hub ''all'' 2 ''downloads'' (init_manager 0)))
     = [(''b'', 500), (''a'', 100)]
   \<and> apply_filters 0 [(example_stats ''a'' 100)\<lparr>created_at := None\<rparr>,
                       (example_stats ''b'' 500)\<lparr>created_at := None\<rparr>] ''all'' ''created''
     = Inl TypeError
   \<and> fst (get_popular_datasets
       (example_hub\<lparr>hub_dataset_info := (\<lambda>i. Inr \<lparr>hub_description = None, hub_downloads = Some 500,
            hub_likes = None, hub_created_at = Some None, hub_last_modified = Some (Aware 0),
            hub_tags = None, hub_size_in_bytes = None, hub_siblings = None\<rparr>)\<rparr>)
       ''all'' 2 ''created'' (init_manager 0)) = []
   \<and> fst (get_popular_datasets
       (example_hub\<lparr>hub_dataset_info := (\<lambda>i. Inr \<lparr>hub_description = None, hub_downloads = Some 500,
            hub_likes = None, hub_created_at = None,
            hub_last_modified = (if i = ''a'' then None else Some (Aware 0)),
            hub_tags = None, hub_size_in_bytes = None, hub_siblings = None\<rparr>)\<rparr>)
       ''all'' 2 ''updated'' (init_manager 0)) = []"
  by (simp add: get_popular_datasets_def example_hub_def init_manager_def fetch_list_def send_def
      get_dataset_stats_def get_dataset_stats_body_def make_stats_def lru_maxsize_def apply_filters_def
      time_filter_def sort_reverse_def sort_reverse_datetime_def orderable_def example_stats_def
      slice_to_def Let_def)

text \<open>
  Claim C10. Whenever \<^verbatim>\<open>remove\<close> takes a button out of the box, in either version of
  the method, the selection is cleared afterwards: \<open>button\<close> is \<^verbatim>\<open>None\<close> and
  \<open>position\<close> is \<open>-1\<close>, whatever was selected before. A position in range removes the
  button at that position (in the viewer's version, a position in range other than \<open>0\<close>).
\<close>

theorem remove_clears_selection:
  "(buttons (remove bb pos) \<noteq> buttons bb \<longrightarrow>
      button (remove bb pos) = None \<and> position (remove bb pos) = - 1)
   \<and> (buttons (remove_viewer bb pos) \<noteq> buttons bb \<longrightarrow>
      button (remove_viewer bb pos) = None \<and> position (remove_viewer bb pos) = - 1)
   \<and> (0 \<le> p \<and> p < int (length (buttons bb)) \<longrightarrow>
      buttons (remove bb (Some p)) = take (nat p) (buttons bb) @ drop (Suc (nat p)) (buttons bb)
      \<and> button (remove bb (Some p)) = None \<and> position (remove bb (Some p)) = - 1)
   \<and> (0 < p \<and> p < int (length (buttons bb)) \<longrightarrow>
      buttons (remove_viewer bb (Some p)) = take (nat p) (buttons bb) @ drop (Suc (nat p)) (buttons bb)
      \<and> button (remove_viewer bb (Some p)) = None \<and> position (remove_viewer bb (Some p)) = - 1)"
  by (auto simp: remove_def remove_viewer_def Let_def nat_add_distrib split: option.splits if_splits)

lemma list_all_time_take:
  "list_all_time r (Inr infos) limit search_text task language rl rcd =
     Inr (take (max 1 (nat limit))
            (filter (keep r (lower (strip search_text)) task language rl rcd)
               (map (build_dataset_record r) infos)))"
  by (simp add: list_all_time_def listing_loop_take)

lemma keep_multi_neutral:
  "keep r [] ''Any'' ''multi'' False False rc =
     (length (rec_languages rc) > 1 \<or> ''multilingual'' \<in> set (rec_languages rc))"
  by (simp add: keep_def search_ok_def task_ok_def language_ok_def license_ok_def carddata_ok_def)

lemma keep_multi_language:
  "keep r search task ''multi'' rl rcd rc \<Longrightarrow>
     length (rec_languages rc) > 1 \<or> ''multilingual'' \<in> set (rec_languages rc)"
  by (simp add: keep_def language_ok_def)

lemma strip_empty: "strip [] = []"
  by (simp add: strip_def)

text \<open>
  Claim C5. With the language \<open>multi\<close>, every record \<^verbatim>\<open>list_all_time\<close> returns has
  more than one language tag or the tag \<open>multilingual\<close>, so a record with exactly one
  other language tag is never returned; with the other filters off, the result is exactly
  the records with that property, in the order of the API, cut to the limit.
\<close>

theorem multi_language_filter:
  "(list_all_time r (Inr infos) limit search_text task ''multi'' rl rcd = Inr recs \<longrightarrow>
      (\<forall>rc \<in> set recs. length (rec_languages rc) > 1 \<or> ''multilingual'' \<in> set (rec_languages rc))
      \<and> (\<forall>rc \<in> set recs. \<forall>l. rec_languages rc = [l] \<longrightarrow> l = ''multilingual''))
   \<and> list_all_time r (Inr infos) limit [] ''Any'' ''multi'' False False =
       Inr (take (max 1 (nat limit))
              (filter (\<lambda>rc. length (rec_languages rc) > 1 \<or> ''multilingual'' \<in> set (rec_languages rc))
                 (map (build_dataset_record r) infos)))
   \<and> (int (length infos) \<le> limit \<longrightarrow>
       list_all_time r (Inr infos) limit [] ''Any'' ''multi'' False False =
         Inr (filter (\<lambda>rc. length (rec_languages rc) > 1 \<or> ''multilingual'' \<in> set (rec_languages rc))
                 (map (build_dataset_record r) infos)))"
proof -
  let ?multi = "\<lambda>rc. length (rec_languages rc) > 1 \<or> ''multilingual'' \<in> set (rec_languages rc)"
  have a: "\<forall>rc \<in> set recs. ?multi rc"
    if "list_all_time r (Inr infos) limit search_text task ''multi'' rl rcd = Inr recs"
  proof
    fix rc assume "rc \<in> set recs"
    with that have "rc \<in> set (filter (keep r (lower (strip search_text)) task ''multi'' rl rcd)
               (map (build_dataset_record r) infos))"
      unfolding list_all_time_take by (auto dest: in_set_takeD)
    then have "keep r (lower (strip search_text)) task ''multi'' rl rcd rc" by simp
    then show "?multi rc" by (rule keep_multi_language)
  qed
  have b: "list_all_time r (Inr infos) limit [] ''Any'' ''multi'' False False =
       Inr (take (max 1 (nat limit)) (filter ?multi (map (build_dataset_record r) infos)))"
    unfolding list_all_time_take by (simp add: strip_empty lower_def keep_multi_neutral [abs_def])
  have c: "list_all_time r (Inr infos) limit [] ''Any'' ''multi'' False False =
       Inr (filter ?multi (map (build_dataset_record r) infos))" if "int (length infos) \<le> limit"
  proof -
    have "length (filter ?multi (map (build_dataset_record r) infos)) \<le> length infos"
      using length_filter_le [of ?multi "map (build_dataset_record r) infos"] by simp
    with that have "length (filter ?multi (map (build_dataset_record r) infos)) \<le> max 1 (nat limit)"
      by linarith
    then show ?thesis unfolding b by simp
  qed
  have a2: "\<forall>rc \<in> set recs. \<forall>l. rec_languages rc = [l] \<longrightarrow> l = ''multilingual''"
    if "list_all_time r (Inr infos) limit search_text task ''multi'' rl rcd = Inr recs"
  proof (intro ballI allI impI)
    fix rc l assume "rc \<in> set recs" and l: "rec_languages rc = [l]"
    with a [OF that] have "?multi rc" by blast
    with l show "l = ''multilingual''" by simp
  qed
  show ?thesis
  proof (intro conjI impI)
    assume h: "list_all_time r (Inr infos) limit search_text task ''multi'' rl rcd = Inr recs"
    show "\<forall>rc \<in> set recs. ?multi rc" by (rule a [OF h])
    show "\<forall>rc \<in> set recs. \<forall>l. rec_languages rc = [l] \<longrightarrow> l = ''multilingual''" by (rule a2 [OF h])
  next
    show "list_all_time r (Inr infos) limit [] ''Any'' ''multi'' False False =
       Inr (take (max 1 (nat limit)) (filter ?multi (map (build_dataset_record r) infos)))" by (rule b)
  next
    assume "int (length infos) \<le> limit"
    then show "list_all_time r (Inr infos) limit [] ''Any'' ''multi'' False False =
       Inr (filter ?multi (map (build_dataset_record r) infos))" by (rule c)
  qed
qed

text \<open>
  Claim C4. \<^verbatim>\<open>_lower_flatten(_normalize_list(v))\<close> gives the same set of lowercase
  strings for a string, for the list holding it and for a dictionary with it as value; for a
  list of strings and for a dictionary of strings it is the set of their lowercase forms.
  The result has no duplicates and is lowercase for every value. A card whose task field is
  \<open>{"x": "Translation"}\<close> gives the tasks \<open>["translation"]\<close> and the record passes the
  filter for the task \<open>translation\<close>.
\<close>

theorem normalize_tags_representation:
  "set (lower_flatten r (normalize_list (PStr s))) = {lower s}
   \<and> set (lower_flatten r (normalize_list (PList [PStr s]))) = {lower s}
   \<and> set (lower_flatten r (normalize_list (PDict [(k, PStr s)]))) = {lower s}
   \<and> set (lower_flatten r (normalize_list (PList (map PStr ss)))) = lower ` set ss
   \<and> set (lower_flatten r (normalize_list (PDict (map (\<lambda>(k, s). (k, PStr s)) kss)))) = lower ` snd ` set kss
   \<and> distinct (lower_flatten r (normalize_list v))
   \<and> map lower (lower_flatten r (normalize_list v)) = lower_flatten r (normalize_list v)
   \<and> rec_tasks (build_dataset_record r
        (info\<lparr>info_cardData := Some [(''task_categories'', PDict [(''x'', PStr ''Translation'')])]\<rparr>))
      = [''translation'']
   \<and> list_all_time r
        (Inr [info\<lparr>info_cardData := Some [(''task_categories'', PDict [(''x'', PStr ''Translation'')])]\<rparr>])
        50 [] ''translation'' ''Any'' False False
      = Inr [build_dataset_record r
        (info\<lparr>info_cardData := Some [(''task_categories'', PDict [(''x'', PStr ''Translation'')])]\<rparr>)]"
proof -
  let ?i = "info\<lparr>info_cardData := Some [(''task_categories'', PDict [(''x'', PStr ''Translation'')])]\<rparr>"
  have single: "set (lower_flatten r (normalize_list (PList [PStr s]))) = {lower s}"
    using lf_list [of r "[s]"] by simp
  have dict1: "set (lower_flatten r (normalize_list (PDict [(k, PStr s)]))) = {lower s}"
    using lf_dict [of r "[(k, s)]"] by simp
  have tasks: "rec_tasks (build_dataset_record r ?i) = [''translation'']"
    by (simp add: build_dataset_record_def extract_tasks_def card_or_empty_def dict_get_def py_or_def
        py_str_def lower_flatten_def lower_def lower_char_def Let_def)
  have kept: "keep r [] ''translation'' ''Any'' False False (build_dataset_record r ?i)"
    using tasks by (simp add: keep_def search_ok_def task_ok_def language_ok_def license_ok_def
        carddata_ok_def lower_def lower_char_def)
  have listed: "list_all_time r (Inr [?i]) 50 [] ''translation'' ''Any'' False False
      = Inr [build_dataset_record r ?i]"
    unfolding list_all_time_take using kept by (simp add: strip_empty lower_def)
  note parts = lf_str [of r s] single dict1 lf_list [of r ss] lf_dict [of r kss]
    lower_flatten_distinct [of r "normalize_list v"] lower_flatten_lower [of r "normalize_list v"]
    tasks listed
  show ?thesis
    by (intro conjI) (rule parts)+
qed

text \<open>
  Claim C8, as amended. \<^verbatim>\<open>build_dataset_record\<close> is a function of the info object alone.
  It copies the id, the downloads, the likes, the last modification and the card, so each
  of them that is missing is \<^verbatim>\<open>None\<close> in the record. The license is the license entry of
  the card, \<^verbatim>\<open>None\<close> when the card is \<^verbatim>\<open>None\<close> or has no such entry. The tasks (the
  languages) are the empty list when the card is \<^verbatim>\<open>None\<close> or has no value under any of
  the three task (language) keys.
\<close>

theorem normalize_defaults:
  "rec_id (build_dataset_record r info) = info_id info
   \<and> rec_downloads (build_dataset_record r info) = info_downloads info
   \<and> rec_likes (build_dataset_record r info) = info_likes info
   \<and> rec_last_modified (build_dataset_record r info) = info_lastModified info
   \<and> rec_card (build_dataset_record r info) = info_cardData info
   \<and> rec_license (build_dataset_record r info) = dict_get (card_or_empty (info_cardData info)) ''license''
   \<and> (info_cardData info = None \<longrightarrow> rec_license (build_dataset_record r info) = PNone)
   \<and> (map_of (card_or_empty (info_cardData info)) ''license'' = None \<longrightarrow>
        rec_license (build_dataset_record r info) = PNone)
   \<and> (dict_get (card_or_empty (info_cardData info)) ''task_categories'' = PNone
        \<and> dict_get (card_or_empty (info_cardData info)) ''task_ids'' = PNone
        \<and> dict_get (card_or_empty (info_cardData info)) ''tasks'' = PNone \<longrightarrow>
        rec_tasks (build_dataset_record r info) = [])
   \<and> (dict_get (card_or_empty (info_cardData info)) ''language'' = PNone
        \<and> dict_get (card_or_empty (info_cardData info)) ''languages'' = PNone
        \<and> dict_get (card_or_empty (info_cardData info)) ''langs'' = PNone \<longrightarrow>
        rec_languages (build_dataset_record r info) = [])
   \<and> (info_cardData info = None \<longrightarrow>
        rec_tasks (build_dataset_record r info) = [] \<and> rec_languages (build_dataset_record r info) = [])
   \<and> build_dataset_record r
        (info\<lparr>info_downloads := None, info_likes := None, info_lastModified := None, info_cardData := None\<rparr>)
      = \<lparr>rec_id = info_id info, rec_downloads = None, rec_likes = None, rec_last_modified = None,
         rec_card = None, rec_tasks = [], rec_languages = [], rec_license = PNone\<rparr>
   \<and> rec_tasks (build_dataset_record r (info\<lparr>info_cardData := Some []\<rparr>)) = []
   \<and> rec_languages (build_dataset_record r (info\<lparr>info_cardData := Some []\<rparr>)) = []
   \<and> rec_license (build_dataset_record r (info\<lparr>info_cardData := Some []\<rparr>)) = PNone"
proof -
  have copies: "rec_id (build_dataset_record r info) = info_id info
     \<and> rec_downloads (build_dataset_record r info) = info_downloads info
     \<and> rec_likes (build_dataset_record r info) = info_likes info
     \<and> rec_last_modified (build_dataset_record r info) = info_lastModified info
     \<and> rec_card (build_dataset_record r info) = info_cardData info
     \<and> rec_license (build_dataset_record r info) = dict_get (card_or_empty (info_cardData info)) ''license''"
    by (simp add: build_dataset_record_def Let_def)
  have lic1: "rec_license (build_dataset_record r info) = PNone" if "info_cardData info = None"
    using that by (simp add: build_dataset_record_def card_or_empty_def dict_get_def Let_def)
  have lic2: "rec_license (build_dataset_record r info) = PNone"
    if "map_of (card_or_empty (info_cardData info)) ''license'' = None"
    using that by (simp add: build_dataset_record_def dict_get_def Let_def)
  have tasks: "rec_tasks (build_dataset_record r info) = []"
    if "dict_get (card_or_empty (info_cardData info)) ''task_categories'' = PNone
        \<and> dict_get (card_or_empty (info_cardData info)) ''task_ids'' = PNone
        \<and> dict_get (card_or_empty (info_cardData info)) ''tasks'' = PNone"
    using that by (simp add: build_dataset_record_def extract_tasks_def py_or_def lower_flatten_def Let_def)
  have langs: "rec_languages (build_dataset_record r info) = []"
    if "dict_get (card_or_empty (info_cardData info)) ''language'' = PNone
        \<and> dict_get (card_or_empty (info_cardData info)) ''languages'' = PNone
        \<and> dict_get (card_or_empty (info_cardData info)) ''langs'' = PNone"
    using that by (simp add: build_dataset_record_def extract_languages_def py_or_def lower_flatten_def Let_def)
  have nocard: "rec_tasks (build_dataset_record r info) = [] \<and> rec_languages (build_dataset_record r info) = []"
    if "info_cardData info = None"
    using that by (simp add: build_dataset_record_def extract_tasks_def extract_languages_def
        card_or_empty_def dict_get_def py_or_def lower_flatten_def Let_def)
  have full: "build_dataset_record r
        (info\<lparr>info_downloads := None, info_likes := None, info_lastModified := None, info_cardData := None\<rparr>)
      = \<lparr>rec_id = info_id info, rec_downloads = None, rec_likes = None, rec_last_modified = None,
         rec_card = None, rec_tasks = [], rec_languages = [], rec_license = PNone\<rparr>"
    by (simp add: build_dataset_record_def extract_tasks_def extract_languages_def card_or_empty_def
      dict_get_def py_or_def lower_flatten_def Let_def)
  have empty: "rec_tasks (build_dataset_record r (info\<lparr>info_cardData := Some []\<rparr>)) = []
   \<and> rec_languages (build_dataset_record r (info\<lparr>info_cardData := Some []\<rparr>)) = []
   \<and> rec_license (build_dataset_record r (info\<lparr>info_cardData := Some []\<rparr>)) = PNone"
    by (simp add: build_dataset_record_def extract_tasks_def extract_languages_def card_or_empty_def
      dict_get_def py_or_def lower_flatten_def Let_def)
  from copies lic1 lic2 tasks langs nocard full empty show ?thesis by blast
qed

text \<open>
  Claim C8 as stated fails: for an info object with nothing but an id, the downloads of the
  record are not zero and its license is not the empty string.
\<close>

theorem normalize_defaults_counterexample:
  "rec_downloads (build_dataset_record (\<lambda>v. [])
      \<lparr>info_id = ''a/b'', info_downloads = None, info_likes = None, info_lastModified = None,
       info_cardData = None\<rparr>) \<noteq> Some 0
   \<and> rec_license (build_dataset_record (\<lambda>v. [])
      \<lparr>info_id = ''a/b'', info_downloads = None, info_likes = None, info_lastModified = None,
       info_cardData = None\<rparr>) \<noteq> PStr []"
  by (simp add: build_dataset_record_def card_or_empty_def dict_get_def Let_def)

lemma make_stats_counters:
  "make_stats i info now = Some s \<Longrightarrow>
     downloads s = (case hub_downloads info of None \<Rightarrow> 0 | Some d \<Rightarrow> d)
     \<and> likes s = (case hub_likes info of None \<Rightarrow> 0 | Some l \<Rightarrow> l)"
  by (auto simp: make_stats_def split: option.splits)


text \<open>
  Claim C9, as amended. In hf\_datasets\_viewer the downloads and likes of a
  \<^verbatim>\<open>DatasetStats\<close> are the values of the source, and \<open>0\<close> when the source has none.
  \<^verbatim>\<open>_apply_filters\<close> and the cut to the limit only select and reorder the items (and
  nothing is returned when \<^verbatim>\<open>_apply_filters\<close> raises), so counters that are not negative
  before are not negative after. In hf\_top\_datasets\_ui the record carries the counters
  of the info object as they are.
\<close>

theorem counters_follow_source:
  "(make_stats i info now = Some s \<longrightarrow>
      downloads s = (case hub_downloads info of None \<Rightarrow> 0 | Some d \<Rightarrow> d)
      \<and> likes s = (case hub_likes info of None \<Rightarrow> 0 | Some l \<Rightarrow> l))
   \<and> set (case apply_filters t ds tp sb of Inl e \<Rightarrow> [] | Inr out \<Rightarrow> slice_to limit out) \<subseteq> set ds
   \<and> ((\<forall>d \<in> set ds. 0 \<le> downloads d \<and> 0 \<le> likes d) \<longrightarrow>
       (\<forall>d \<in> set (case apply_filters t ds tp sb of Inl e \<Rightarrow> [] | Inr out \<Rightarrow> slice_to limit out).
           0 \<le> downloads d \<and> 0 \<le> likes d))
   \<and> rec_downloads (build_dataset_record r gi) = info_downloads gi
   \<and> rec_likes (build_dataset_record r gi) = info_likes gi"
proof -
  have sub: "set (case apply_filters t ds tp sb of Inl e \<Rightarrow> [] | Inr out \<Rightarrow> slice_to limit out) \<subseteq> set ds"
  proof (cases "apply_filters t ds tp sb")
    case (Inl e)
    then show ?thesis by simp
  next
    case (Inr out)
    have "set (slice_to limit out) \<subseteq> set out" by (rule set_slice_to)
    also have "set out \<subseteq> set ds" using Inr by (rule set_apply_filters)
    finally show ?thesis using Inr by simp
  qed
  have pres: "\<forall>d \<in> set (case apply_filters t ds tp sb of Inl e \<Rightarrow> [] | Inr out \<Rightarrow> slice_to limit out).
       0 \<le> downloads d \<and> 0 \<le> likes d"
    if "\<forall>d \<in> set ds. 0 \<le> downloads d \<and> 0 \<le> likes d"
    using that sub by blast
  have cp: "rec_downloads (build_dataset_record r gi) = info_downloads gi
     \<and> rec_likes (build_dataset_record r gi) = info_likes gi"
    by (simp add: build_dataset_record_def Let_def)
  show ?thesis
    using make_stats_counters [of i info now s] sub pres cp by blast
qed

text \<open>
  Claim C9 as stated fails: a source value of \<open>-5\<close> downloads is kept as \<open>-5\<close>, and in
  hf\_top\_datasets\_ui unknown likes are \<^verbatim>\<open>None\<close>, not \<open>0\<close>.
\<close>

theorem counters_counterexample:
  "map_option downloads (make_stats ''a/b''
       \<lparr>hub_description = None, hub_downloads = Some (- 5), hub_likes = None, hub_created_at = None,
        hub_last_modified = None, hub_tags = None, hub_size_in_bytes = None, hub_siblings = None\<rparr> 0)
     = Some (- 5)
   \<and> rec_likes (build_dataset_record (\<lambda>v. [])
       \<lparr>info_id = ''a/b'', info_downloads = None, info_likes = None, info_lastModified = None,
        info_cardData = None\<rparr>) = None"
  by (simp add: make_stats_def build_dataset_record_def Let_def)


lemma get_popular_datasets_fetch_fails:
  assumes "\<forall>t0 data. cache st (cache_key tp limit sb) = Some (t0, data) \<longrightarrow> \<not> clock st - t0 < cache_timeout"
    and "hub_list_datasets h (Some (limit * 3)) = Inl e1"
    and "hub_list_datasets h None = Inl e2"
  shows "fst (get_popular_datasets h tp limit sb st) = []"
    and "cache (snd (get_popular_datasets h tp limit sb st)) = cache st"
    and "stats_cache (snd (get_popular_datasets h tp limit sb st)) = stats_cache st"
proof -
  have miss: "(case cache st (cache_key tp limit sb) of
              Some (cache_time, data) \<Rightarrow>
                if clock st - cache_time < cache_timeout then Some data else None
            | None \<Rightarrow> None) = None"
    using assms(1) by (cases "cache st (cache_key tp limit sb)") auto
  have g: "get_popular_datasets h tp limit sb st
      = ([], send h (ListDatasets None) (send h (ListDatasets (Some (limit * 3))) st))"
    using assms(2,3) by (simp add: get_popular_datasets_def miss fetch_list_def Let_def)
  show "fst (get_popular_datasets h tp limit sb st) = []" by (simp add: g)
  show "cache (snd (get_popular_datasets h tp limit sb st)) = cache st" by (simp add: g send_def)
  show "stats_cache (snd (get_popular_datasets h tp limit sb st)) = stats_cache st" by (simp add: g send_def)
qed

lemma get_dataset_stats_fetch_fails:
  assumes "map_of (lru st) d = None"
    and "\<forall>t0 s. stats_cache st d = Some (t0, s) \<longrightarrow> \<not> clock st - t0 < cache_timeout"
    and "hub_dataset_info h d = Inl e"
  shows "fst (get_dataset_stats h d st) = None"
proof -
  have miss: "(case stats_cache st d of
              Some (cache_time, stats) \<Rightarrow>
                if clock st - cache_time < cache_timeout then Some stats else None
            | None \<Rightarrow> None) = None"
    using assms(2) by (cases "stats_cache st d") auto
  show ?thesis
    using assms(1,3) by (simp add: get_dataset_stats_def get_dataset_stats_body_def miss Let_def)
qed

lemma collect_stats_skips:
  assumes "\<not> limit \<le> int (length acc)" and "fst (get_dataset_stats h d st) = None"
  shows "collect_stats h limit (d # ds) acc st = collect_stats h limit ds acc (snd (get_dataset_stats h d st))"
  using assms by (cases "get_dataset_stats h d st") simp

text \<open>
  Claim C6, as amended. No failure of a request reaches the caller as a
  \<^verbatim>\<open>FetchError\<close>. When the list request of \<^verbatim>\<open>list_trending\<close> fails, the function
  returns the empty list; an id whose detail request fails is left out and the loop goes on
  with the next. When both list requests of \<^verbatim>\<open>get_popular_datasets\<close> fail and no cached
  list younger than the timeout answers the call, it returns the empty list and leaves its
  cache as it was; a dataset whose detail request fails has the statistics \<^verbatim>\<open>None\<close> and
  is left out. \<^verbatim>\<open>list_all_time\<close> passes the exception of its request on unchanged.
\<close>

theorem fetch_failure_gives_empty_list:
  "(http_get (''https://huggingface.co/api/trending/datasets?period='' @ period) = Inl e \<longrightarrow>
      list_trending r http_get cdi period limit search_text task language rl rcd = [])
   \<and> (info_of_rid cdi rid = Inl e \<longrightarrow>
      trending_loop r cdi p limit (rid # rest) records = trending_loop r cdi p limit rest records)
   \<and> ((\<forall>t0 data. cache st (cache_key tp lmt sb) = Some (t0, data) \<longrightarrow> \<not> clock st - t0 < cache_timeout)
        \<and> hub_list_datasets h (Some (lmt * 3)) = Inl e1
        \<and> hub_list_datasets h None = Inl e2 \<longrightarrow>
      fst (get_popular_datasets h tp lmt sb st) = []
      \<and> cache (snd (get_popular_datasets h tp lmt sb st)) = cache st)
   \<and> (map_of (lru st) d = None
        \<and> (\<forall>t0 s. stats_cache st d = Some (t0, s) \<longrightarrow> \<not> clock st - t0 < cache_timeout)
        \<and> hub_dataset_info h d = Inl e3 \<longrightarrow>
      fst (get_dataset_stats h d st) = None)
   \<and> (\<not> lmt \<le> int (length acc) \<and> fst (get_dataset_stats h d st) = None \<longrightarrow>
      collect_stats h lmt (d # ds) acc st = collect_stats h lmt ds acc (snd (get_dataset_stats h d st)))
   \<and> list_all_time r (Inl e) limit search_text task language rl rcd = Inl e"
proof (intro conjI impI)
  assume "http_get (''https://huggingface.co/api/trending/datasets?period='' @ period) = Inl e"
  then show "list_trending r http_get cdi period limit search_text task language rl rcd = []"
    by (simp add: list_trending_def)
next
  assume "info_of_rid cdi rid = Inl e"
  then show "trending_loop r cdi p limit (rid # rest) records = trending_loop r cdi p limit rest records"
    by simp
next
  assume a: "(\<forall>t0 data. cache st (cache_key tp lmt sb) = Some (t0, data) \<longrightarrow> \<not> clock st - t0 < cache_timeout)
        \<and> hub_list_datasets h (Some (lmt * 3)) = Inl e1
        \<and> hub_list_datasets h None = Inl e2"
  then show "fst (get_popular_datasets h tp lmt sb st) = []"
    using get_popular_datasets_fetch_fails(1) [of st tp lmt sb h e1 e2] by blast
  from a show "cache (snd (get_popular_datasets h tp lmt sb st)) = cache st"
    using get_popular_datasets_fetch_fails(2) [of st tp lmt sb h e1 e2] by blast
next
  assume "map_of (lru st) d = None
        \<and> (\<forall>t0 s. stats_cache st d = Some (t0, s) \<longrightarrow> \<not> clock st - t0 < cache_timeout)
        \<and> hub_dataset_info h d = Inl e3"
  then show "fst (get_dataset_stats h d st) = None"
    using get_dataset_stats_fetch_fails [of st d h e3] by blast
next
  assume "\<not> lmt \<le> int (length acc) \<and> fst (get_dataset_stats h d st) = None"
  then show "collect_stats h lmt (d # ds) acc st = collect_stats h lmt ds acc (snd (get_dataset_stats h d st))"
    using collect_stats_skips [of lmt acc h d st ds] by blast
next
  show "list_all_time r (Inl e) limit search_text task language rl rcd = Inl e"
    by (simp add: list_all_time_def)
qed

text \<open>
  Claim C6 as stated fails: with a transport that raises, \<^verbatim>\<open>list_trending\<close> returns
  the empty list, and the caller sees no error.
\<close>

theorem fetch_failure_counterexample:
  "list_trending (\<lambda>v. []) (\<lambda>url. Inl ''ConnectionError'') (\<lambda>i. Inl ''unused'')
     ''week'' 50 [] ''Any'' ''Any'' False False = []"
  by (simp add: list_trending_def)














text \<open>
  Claim C1 on \<^verbatim>\<open>get_popular_datasets\<close>: the catalog lists \<open>a\<close> (100 downloads) before
  \<open>b\<close> and \<open>c\<close> (500 each). With the limit 1 the result is \<open>a\<close>, not the top-ranked
  \<open>b\<close>: the loop stops collecting at the limit, before the sort. With the limit 2 the
  result is \<open>b, a\<close>, and \<open>c\<close> is never looked at.
\<close>

theorem truncation_before_sorting:
  "map stats_id (fst (get_popular_datasets example_hub ''all'' 1 ''downloads'' (init_manager 0))) = [''a'']
   \<and> map downloads (fst (get_popular_datasets example_hub ''all'' 1 ''downloads'' (init_manager 0))) = [100]
   \<and> map stats_id (fst (get_popular_datasets example_hub ''all'' 2 ''downloads'' (init_manager 0))) = [''b'', ''a'']"
  by (simp add: get_popular_datasets_def example_hub_def init_manager_def fetch_list_def send_def
      get_dataset_stats_def get_dataset_stats_body_def make_stats_def lru_maxsize_def apply_filters_def
      time_filter_def sort_reverse_def slice_to_def Let_def)

text \<open>
  Claim C2 on \<^verbatim>\<open>get_dataset_stats\<close>: a second call for the same id 4000 seconds after
  the first sends no request, and returns the first result even from a catalog that would
  now raise: the table of \<^verbatim>\<open>lru_cache\<close> answers before the timeout is looked at.
\<close>

theorem stats_memo_outlives_ttl:
  "requests (snd (get_dataset_stats example_hub ''a'' (init_manager 0))) = [DatasetInfo ''a'']
   \<and> requests (snd (get_dataset_stats example_hub ''a''
        (wait 4000 (snd (get_dataset_stats example_hub ''a'' (init_manager 0)))))) = [DatasetInfo ''a'']
   \<and> clock (wait 4000 (snd (get_dataset_stats example_hub ''a'' (init_manager 0)))) = 4001
   \<and> fst (get_dataset_stats (example_hub\<lparr>hub_dataset_info := (\<lambda>i. Inl ''gone'')\<rparr>) ''a''
        (wait 4000 (snd (get_dataset_stats example_hub ''a'' (init_manager 0)))))
      = fst (get_dataset_stats example_hub ''a'' (init_manager 0))"
  by (simp add: example_hub_def init_manager_def send_def wait_def
      get_dataset_stats_def get_dataset_stats_body_def make_stats_def lru_maxsize_def Let_def)

text \<open>Claim C10 on a box of two buttons, the first selected and the second removed.\<close>

theorem remove_clears_selection_witness:
  "buttons (remove example_box (Some 1)) \<noteq> buttons example_box
   \<and> button example_box = Some 0
   \<and> button (remove example_box (Some 1)) = None
   \<and> position (remove example_box (Some 1)) = - 1
   \<and> buttons (remove_viewer example_box (Some 1)) \<noteq> buttons example_box
   \<and> button (remove_viewer example_box (Some 1)) = None
   \<and> position (remove_viewer example_box (Some 1)) = - 1"
proof -
  have h1: "buttons (remove example_box (Some 1)) \<noteq> buttons example_box"
    by (simp add: remove_def example_box_def append_button_def init_box_def)
  have h2: "buttons (remove_viewer example_box (Some 1)) \<noteq> buttons example_box"
    by (simp add: remove_viewer_def example_box_def append_button_def init_box_def)
  have h3: "button example_box = Some 0"
    by (simp add: example_box_def)
  from remove_clears_selection [of example_box "Some 1" 1] h1 h2 h3 show ?thesis
    by blast
qed

text \<open>Claim C5 on a dataset in two languages and a dataset in one.\<close>

theorem multi_language_filter_witness:
  "int (length [example_info ''a/x'' (PList [PStr ''en'', PStr ''de'']), example_info ''b/y'' (PStr ''en'')]) \<le> 50
   \<and> list_all_time (\<lambda>v. [])
       (Inr [example_info ''a/x'' (PList [PStr ''en'', PStr ''de'']), example_info ''b/y'' (PStr ''en'')])
       50 [] ''Any'' ''multi'' False False
     = Inr [build_dataset_record (\<lambda>v. []) (example_info ''a/x'' (PList [PStr ''en'', PStr ''de'']))]"
proof -
  let ?a = "example_info ''a/x'' (PList [PStr ''en'', PStr ''de''])"
  let ?b = "example_info ''b/y'' (PStr ''en'')"
  let ?multi = "\<lambda>rc. length (rec_languages rc) > 1 \<or> ''multilingual'' \<in> set (rec_languages rc)"
  have h: "int (length [?a, ?b]) \<le> 50" by simp
  have la: "rec_languages (build_dataset_record (\<lambda>v. []) ?a) = [''en'', ''de'']"
    by (simp add: build_dataset_record_def extract_languages_def example_info_def card_or_empty_def
        dict_get_def py_or_def py_str_def lower_flatten_def lower_def lower_char_def Let_def)
  have lb: "rec_languages (build_dataset_record (\<lambda>v. []) ?b) = [''en'']"
    by (simp add: build_dataset_record_def extract_languages_def example_info_def card_or_empty_def
        dict_get_def py_or_def py_str_def lower_flatten_def lower_def lower_char_def Let_def)
  have "list_all_time (\<lambda>v. []) (Inr [?a, ?b]) 50 [] ''Any'' ''multi'' False False
      = Inr (filter ?multi (map (build_dataset_record (\<lambda>v. [])) [?a, ?b]))"
    using multi_language_filter [of "\<lambda>v. []" "[?a, ?b]" 50] h by blast
  also have "filter ?multi (map (build_dataset_record (\<lambda>v. [])) [?a, ?b])
      = [build_dataset_record (\<lambda>v. []) ?a]"
    by (simp add: la lb)
  finally show ?thesis using h by simp
qed

text \<open>Claim C4 on the tag \<open>Translation\<close> in its three forms.\<close>

theorem normalize_tags_representation_witness:
  "set (lower_flatten (\<lambda>v. []) (normalize_list (PStr ''Translation''))) = {''translation''}
   \<and> set (lower_flatten (\<lambda>v. []) (normalize_list (PList [PStr ''Translation'']))) = {''translation''}
   \<and> set (lower_flatten (\<lambda>v. []) (normalize_list (PDict [(''x'', PStr ''Translation'')]))) = {''translation''}"
proof -
  have l: "lower ''Translation'' = ''translation''"
    by (simp add: lower_def lower_char_def)
  from normalize_tags_representation [of "\<lambda>v. []" "''Translation''" "''x''"]
  have "set (lower_flatten (\<lambda>v. []) (normalize_list (PStr ''Translation''))) = {lower ''Translation''}
   \<and> set (lower_flatten (\<lambda>v. []) (normalize_list (PList [PStr ''Translation'']))) = {lower ''Translation''}
   \<and> set (lower_flatten (\<lambda>v. []) (normalize_list (PDict [(''x'', PStr ''Translation'')]))) = {lower ''Translation''}"
    by blast
  then show ?thesis unfolding l .
qed


text \<open>
  Claim C8, as amended, on an info object with downloads and a card that has a title
  only: the likes, the date and the license are \<^verbatim>\<open>None\<close>, tasks and languages empty.
\<close>

theorem normalize_defaults_witness:
  "map_of [(''pretty_name'', PStr ''X'')] ''license'' = None
   \<and> dict_get [(''pretty_name'', PStr ''X'')] ''task_categories'' = PNone
   \<and> dict_get [(''pretty_name'', PStr ''X'')] ''task_ids'' = PNone
   \<and> dict_get [(''pretty_name'', PStr ''X'')] ''tasks'' = PNone
   \<and> dict_get [(''pretty_name'', PStr ''X'')] ''language'' = PNone
   \<and> dict_get [(''pretty_name'', PStr ''X'')] ''languages'' = PNone
   \<and> dict_get [(''pretty_name'', PStr ''X'')] ''langs'' = PNone
   \<and> build_dataset_record (\<lambda>v. [])
       \<lparr>info_id = ''a/b'', info_downloads = Some 5, info_likes = None, info_lastModified = None,
        info_cardData = Some [(''pretty_name'', PStr ''X'')]\<rparr>
     = \<lparr>rec_id = ''a/b'', rec_downloads = Some 5, rec_likes = None, rec_last_modified = None,
        rec_card = Some [(''pretty_name'', PStr ''X'')], rec_tasks = [], rec_languages = [],
        rec_license = PNone\<rparr>"
proof -
  let ?c = "[(''pretty_name'', PStr ''X'')]"
  let ?i = "\<lparr>info_id = ''a/b'', info_downloads = Some 5, info_likes = None, info_lastModified = None,
        info_cardData = Some ?c\<rparr>"
  have c: "card_or_empty (info_cardData ?i) = ?c" by (simp add: card_or_empty_def)
  have h1: "map_of ?c ''license'' = None" by simp
  have h2: "dict_get ?c ''task_categories'' = PNone \<and> dict_get ?c ''task_ids'' = PNone
     \<and> dict_get ?c ''tasks'' = PNone" by (simp add: dict_get_def)
  have h3: "dict_get ?c ''language'' = PNone \<and> dict_get ?c ''languages'' = PNone
     \<and> dict_get ?c ''langs'' = PNone" by (simp add: dict_get_def)
  from normalize_defaults [of "\<lambda>v. []" ?i] h1 h2 h3
  have "rec_id (build_dataset_record (\<lambda>v. []) ?i) = info_id ?i
     \<and> rec_downloads (build_dataset_record (\<lambda>v. []) ?i) = info_downloads ?i
     \<and> rec_likes (build_dataset_record (\<lambda>v. []) ?i) = info_likes ?i
     \<and> rec_last_modified (build_dataset_record (\<lambda>v. []) ?i) = info_lastModified ?i
     \<and> rec_card (build_dataset_record (\<lambda>v. []) ?i) = info_cardData ?i
     \<and> rec_license (build_dataset_record (\<lambda>v. []) ?i) = PNone
     \<and> rec_tasks (build_dataset_record (\<lambda>v. []) ?i) = []
     \<and> rec_languages (build_dataset_record (\<lambda>v. []) ?i) = []"
    unfolding c by blast
  then have "build_dataset_record (\<lambda>v. []) ?i
     = \<lparr>rec_id = ''a/b'', rec_downloads = Some 5, rec_likes = None, rec_last_modified = None,
        rec_card = Some ?c, rec_tasks = [], rec_languages = [], rec_license = PNone\<rparr>"
    by (cases "build_dataset_record (\<lambda>v. []) ?i") simp
  with h1 h2 h3 show ?thesis by blast
qed

text \<open>Claim C9, as amended, on a source with 7 downloads and unknown likes.\<close>

theorem counters_follow_source_witness:
  "0 \<le> downloads (example_stats ''a'' 100) \<and> 0 \<le> likes (example_stats ''a'' 100)
   \<and> 0 \<le> downloads (example_stats ''b'' 500) \<and> 0 \<le> likes (example_stats ''b'' 500)
   \<and> apply_filters 0 [example_stats ''a'' 100, example_stats ''b'' 500] ''all'' ''downloads''
       = Inr [example_stats ''b'' 500, example_stats ''a'' 100]
   \<and> slice_to 1 [example_stats ''b'' 500, example_stats ''a'' 100] = [example_stats ''b'' 500]
   \<and> make_stats ''a'' \<lparr>hub_description = None, hub_downloads = Some 7, hub_likes = None,
        hub_created_at = None, hub_last_modified = None, hub_tags = None, hub_size_in_bytes = None,
        hub_siblings = None\<rparr> 0 = Some ((example_stats ''a'' 7)\<lparr>name := ''a''\<rparr>)
   \<and> downloads ((example_stats ''a'' 7)\<lparr>name := ''a''\<rparr>) = 7
   \<and> likes ((example_stats ''a'' 7)\<lparr>name := ''a''\<rparr>) = 0"
proof -
  let ?ds = "[example_stats ''a'' 100, example_stats ''b'' 500]"
  let ?info = "\<lparr>hub_description = None, hub_downloads = Some 7, hub_likes = None,
        hub_created_at = None, hub_last_modified = None, hub_tags = None, hub_size_in_bytes = None,
        hub_siblings = None\<rparr>"
  have h1: "\<forall>d \<in> set ?ds. 0 \<le> downloads d \<and> 0 \<le> likes d"
    by (simp add: example_stats_def)
  have h2: "make_stats ''a'' ?info 0 = Some ((example_stats ''a'' 7)\<lparr>name := ''a''\<rparr>)"
    by (simp add: make_stats_def example_stats_def)
  have h3: "apply_filters 0 ?ds ''all'' ''downloads'' = Inr [example_stats ''b'' 500, example_stats ''a'' 100]"
    by (simp add: apply_filters_def time_filter_def sort_reverse_def example_stats_def)
  have h4: "slice_to 1 [example_stats ''b'' 500, example_stats ''a'' 100] = [example_stats ''b'' 500]"
    by (simp add: slice_to_def)
  from counters_follow_source [of "''a''" ?info 0 "(example_stats ''a'' 7)\<lparr>name := ''a''\<rparr>" 1 0 ?ds "''all''" "''downloads''"] h1 h2
  have "(\<forall>d \<in> set (case apply_filters 0 ?ds ''all'' ''downloads'' of Inl e \<Rightarrow> [] | Inr out \<Rightarrow> slice_to 1 out).
            0 \<le> downloads d \<and> 0 \<le> likes d)
     \<and> downloads ((example_stats ''a'' 7)\<lparr>name := ''a''\<rparr>) = (case hub_downloads ?info of None \<Rightarrow> 0 | Some d \<Rightarrow> d)
     \<and> likes ((example_stats ''a'' 7)\<lparr>name := ''a''\<rparr>) = (case hub_likes ?info of None \<Rightarrow> 0 | Some l \<Rightarrow> l)"
    by blast
  with h1 h2 h3 h4 show ?thesis by simp
qed

text \<open>
  Claim C6, as amended, on a transport and a catalog that raise, with a cached list that
  is older than the timeout.
\<close>

theorem fetch_failure_gives_empty_list_witness:
  "(\<lambda>url. Inl ''Timeout'' :: string + pydict list)
       (''https://huggingface.co/api/trending/datasets?period='' @ ''month'') = Inl ''Timeout''
   \<and> list_trending (\<lambda>v. []) (\<lambda>url. Inl ''Timeout'') (\<lambda>i. Inl ''Timeout'')
        ''month'' 50 [] ''Any'' ''Any'' False False = []
   \<and> info_of_rid (\<lambda>i. Inl ''Timeout'') (PStr ''a/x'') = Inl ''Timeout''
   \<and> trending_loop (\<lambda>v. []) (\<lambda>i. Inl ''Timeout'') (\<lambda>rc. True) 50 [PStr ''a/x''] [] = []
   \<and> cache ((init_manager 4000)\<lparr>cache := [cache_key ''all'' 50 ''downloads'' \<mapsto> (0, [])]\<rparr>)
        (cache_key ''all'' 50 ''downloads'') = Some (0, [])
   \<and> \<not> clock ((init_manager 4000)\<lparr>cache := [cache_key ''all'' 50 ''downloads'' \<mapsto> (0, [])]\<rparr>) - 0
          < cache_timeout
   \<and> fst (get_popular_datasets
            (example_hub\<lparr>hub_list_datasets := (\<lambda>l. Inl ''HTTPError''),
                         hub_dataset_info := (\<lambda>i. Inl ''HTTPError'')\<rparr>)
            ''all'' 50 ''downloads''
            ((init_manager 4000)\<lparr>cache := [cache_key ''all'' 50 ''downloads'' \<mapsto> (0, [])]\<rparr>)) = []
   \<and> fst (get_dataset_stats
            (example_hub\<lparr>hub_list_datasets := (\<lambda>l. Inl ''HTTPError''),
                         hub_dataset_info := (\<lambda>i. Inl ''HTTPError'')\<rparr>)
            ''a'' ((init_manager 4000)\<lparr>cache := [cache_key ''all'' 50 ''downloads'' \<mapsto> (0, [])]\<rparr>)) = None
   \<and> fst (collect_stats
            (example_hub\<lparr>hub_list_datasets := (\<lambda>l. Inl ''HTTPError''),
                         hub_dataset_info := (\<lambda>i. Inl ''HTTPError'')\<rparr>)
            50 [''a''] [] ((init_manager 4000)\<lparr>cache := [cache_key ''all'' 50 ''downloads'' \<mapsto> (0, [])]\<rparr>)) = []"
proof -
  let ?h = "example_hub\<lparr>hub_list_datasets := (\<lambda>l. Inl ''HTTPError''),
                         hub_dataset_info := (\<lambda>i. Inl ''HTTPError'')\<rparr>"
  let ?st = "(init_manager 4000)\<lparr>cache := [cache_key ''all'' 50 ''downloads'' \<mapsto> (0, [])]\<rparr>"
  have h1: "(\<lambda>url. Inl ''Timeout'' :: string + pydict list)
       (''https://huggingface.co/api/trending/datasets?period='' @ ''month'') = Inl ''Timeout''"
    by simp
  have h2: "info_of_rid (\<lambda>i. Inl ''Timeout'') (PStr ''a/x'') = Inl ''Timeout''"
    by (simp add: info_of_rid_def)
  have c1: "cache ?st (cache_key ''all'' 50 ''downloads'') = Some (0, [])"
    by simp
  have c2: "\<not> clock ?st - 0 < cache_timeout"
    by (simp add: init_manager_def cache_timeout_def)
  have h3: "(\<forall>t0 data. cache ?st (cache_key ''all'' 50 ''downloads'') = Some (t0, data)
               \<longrightarrow> \<not> clock ?st - t0 < cache_timeout)
     \<and> hub_list_datasets ?h (Some (50 * 3)) = Inl ''HTTPError''
     \<and> hub_list_datasets ?h None = Inl ''HTTPError''"
    using c2 by simp
  have h4: "map_of (lru ?st) ''a'' = None
     \<and> (\<forall>t0 s. stats_cache ?st ''a'' = Some (t0, s) \<longrightarrow> \<not> clock ?st - t0 < cache_timeout)
     \<and> hub_dataset_info ?h ''a'' = Inl ''HTTPError''"
    by (simp add: init_manager_def)
  note inst = fetch_failure_gives_empty_list [of "\<lambda>url. Inl ''Timeout''" "''month''" "''Timeout''" "\<lambda>v. []"
      "\<lambda>i. Inl ''Timeout''" 50 "[]" "''Any''" "''Any''" False False "PStr ''a/x''" "\<lambda>rc. True" "[]" "[]"
      ?st "''all''" 50 "''downloads''" ?h "''HTTPError''" "''HTTPError''" "''a''" "''HTTPError''" "[]" "[]"]
  from inst h1 have t1: "list_trending (\<lambda>v. []) (\<lambda>url. Inl ''Timeout'') (\<lambda>i. Inl ''Timeout'')
        ''month'' 50 [] ''Any'' ''Any'' False False = []"
    by blast
  from inst h2 have "trending_loop (\<lambda>v. []) (\<lambda>i. Inl ''Timeout'') (\<lambda>rc. True) 50 [PStr ''a/x''] []
      = trending_loop (\<lambda>v. []) (\<lambda>i. Inl ''Timeout'') (\<lambda>rc. True) 50 [] []"
    by blast
  then have t2: "trending_loop (\<lambda>v. []) (\<lambda>i. Inl ''Timeout'') (\<lambda>rc. True) 50 [PStr ''a/x''] [] = []"
    by simp
  from inst h3 have t3: "fst (get_popular_datasets ?h ''all'' 50 ''downloads'' ?st) = []"
    by blast
  from inst h4 have t4: "fst (get_dataset_stats ?h ''a'' ?st) = None"
    by blast
  have "\<not> (50 :: int) \<le> int (length ([] :: DatasetStats list))" by simp
  with inst t4 have "collect_stats ?h 50 [''a''] [] ?st
      = collect_stats ?h 50 [] [] (snd (get_dataset_stats ?h ''a'' ?st))"
    by blast
  then have t5: "fst (collect_stats ?h 50 [''a''] [] ?st) = []"
    by simp
  from h1 h2 c1 c2 t1 t2 t3 t4 t5 show ?thesis by blast
qed


lemma get_dataset_stats_memo:
  "map_of (lru st) i = Some res \<Longrightarrow>
     fst (get_dataset_stats h i st) = res
     \<and> requests (snd (get_dataset_stats h i st)) = requests st"
  by (simp add: get_dataset_stats_def)

lemma lru_body: "lru (snd (get_dataset_stats_body h i st)) = lru st"
  by (simp add: get_dataset_stats_body_def send_def Let_def split: option.splits sum.splits prod.splits)

lemma get_dataset_stats_enters_lru:
  "map_of (lru (snd (get_dataset_stats h i st))) i = Some (fst (get_dataset_stats h i st))"
  by (cases "map_of (lru st) i")
     (simp_all add: get_dataset_stats_def lru_maxsize_def split: prod.splits)

lemma get_dataset_stats_twice:
  "fst (get_dataset_stats h' i (wait d (snd (get_dataset_stats h i st))))
     = fst (get_dataset_stats h i st)
   \<and> requests (snd (get_dataset_stats h' i (wait d (snd (get_dataset_stats h i st)))))
     = requests (snd (get_dataset_stats h i st))"
proof -
  have "map_of (lru (wait d (snd (get_dataset_stats h i st)))) i = Some (fst (get_dataset_stats h i st))"
    using get_dataset_stats_enters_lru [of h i st] by (simp add: wait_def)
  from get_dataset_stats_memo [OF this, of h'] show ?thesis
    by (simp add: wait_def)
qed


lemma popular_cache_hit:
  "cache st (cache_key tp limit sb) = Some (t0, data) \<Longrightarrow> clock st - t0 < cache_timeout \<Longrightarrow>
     get_popular_datasets h tp limit sb st = (data, st)"
  by (simp add: get_popular_datasets_def)

lemma requests_get_dataset_stats:
  "\<exists>rs. requests (snd (get_dataset_stats h i st)) = rs @ requests st"
  by (auto simp: get_dataset_stats_def get_dataset_stats_body_def send_def Let_def
      split: option.splits sum.splits prod.splits)

lemma requests_collect_stats:
  "\<exists>rs. requests (snd (collect_stats h limit ds acc st)) = rs @ requests st"
proof (induction ds arbitrary: acc st)
  case Nil
  show ?case by simp
next
  case (Cons d ds)
  show ?case
  proof (cases "int (length acc) \<ge> limit")
    case True
    then show ?thesis by simp
  next
    case False
    obtain res st1 where g: "get_dataset_stats h d st = (res, st1)" by (cases "get_dataset_stats h d st")
    from requests_get_dataset_stats [of h d st] g obtain rs1 where r1: "requests st1 = rs1 @ requests st"
      by auto
    show ?thesis
    proof (cases res)
      case None
      from Cons.IH [of acc st1] obtain rs2 where "requests (snd (collect_stats h limit ds acc st1)) = rs2 @ requests st1"
        by blast
      with False g None r1 show ?thesis by simp
    next
      case (Some s)
      from Cons.IH [of "acc @ [s]" st1] obtain rs2
        where "requests (snd (collect_stats h limit ds (acc @ [s]) st1)) = rs2 @ requests st1"
        by blast
      with False g Some r1 show ?thesis by simp
    qed
  qed
qed


lemma popular_cache_refetch:
  assumes miss: "cache st (cache_key tp limit sb) = None
                 \<or> (\<exists>t0 data. cache st (cache_key tp limit sb) = Some (t0, data)
                       \<and> \<not> clock st - t0 < cache_timeout)"
    and ok: "hub_list_datasets h (Some (limit * 3)) = Inr ds"
    and all: "tp = ''all''" and key: "sb \<noteq> ''updated''" "sb \<noteq> ''created''"
  shows "cache (snd (get_popular_datasets h tp limit sb st)) (cache_key tp limit sb)
         = Some (clock (snd (get_popular_datasets h tp limit sb st)),
                 fst (get_popular_datasets h tp limit sb st))"
    and "\<exists>rs. requests (snd (get_popular_datasets h tp limit sb st))
           = rs @ ListDatasets (Some (limit * 3)) # requests st"
proof -
  let ?st1 = "send h (ListDatasets (Some (limit * 3))) st"
  have fl: "fetch_list h limit st = (Inr ds, ?st1)"
    using ok by (simp add: fetch_list_def Let_def)
  obtain acc st2 where c: "collect_stats h limit ds [] ?st1 = (acc, st2)"
    by (cases "collect_stats h limit ds [] ?st1")
  from apply_filters_total [OF key, of "clock st2" acc] all
  obtain out where a: "apply_filters (clock st2) acc tp sb = Inr out" by blast
  have g: "get_popular_datasets h tp limit sb st =
      (slice_to limit out,
       st2\<lparr>cache := (cache st2)(cache_key tp limit sb \<mapsto> (clock st2, slice_to limit out))\<rparr>)"
    using miss fl c a by (auto simp: get_popular_datasets_def Let_def)
  show "cache (snd (get_popular_datasets h tp limit sb st)) (cache_key tp limit sb)
         = Some (clock (snd (get_popular_datasets h tp limit sb st)),
                 fst (get_popular_datasets h tp limit sb st))"
    by (simp add: g)
  from requests_collect_stats [of h limit ds "[]" ?st1] c obtain rs where "requests st2 = rs @ requests ?st1"
    by auto
  then have "requests (snd (get_popular_datasets h tp limit sb st))
           = rs @ ListDatasets (Some (limit * 3)) # requests st"
    by (simp add: g send_def)
  then show "\<exists>rs. requests (snd (get_popular_datasets h tp limit sb st))
           = rs @ ListDatasets (Some (limit * 3)) # requests st" by blast
qed

lemma popular_twice_within_ttl:
  assumes "cache st (cache_key tp limit sb) = None"
    and "hub_list_datasets h (Some (limit * 3)) = Inr ds"
    and "tp = ''all''" and "sb \<noteq> ''updated''" and "sb \<noteq> ''created''"
    and "d < cache_timeout"
  shows "get_popular_datasets h' tp limit sb (wait d (snd (get_popular_datasets h tp limit sb st)))
         = (fst (get_popular_datasets h tp limit sb st),
            wait d (snd (get_popular_datasets h tp limit sb st)))"
proof -
  let ?s1 = "snd (get_popular_datasets h tp limit sb st)"
  have "cache (wait d ?s1) (cache_key tp limit sb)
      = Some (clock ?s1, fst (get_popular_datasets h tp limit sb st))"
    using popular_cache_refetch(1) [of st tp limit sb h ds] assms by (simp add: wait_def)
  moreover have "clock (wait d ?s1) - clock ?s1 < cache_timeout"
    using assms(6) by (simp add: wait_def)
  ultimately show ?thesis by (rule popular_cache_hit)
qed

lemma collect_stats_length:
  "length (fst (collect_stats h limit ds acc st)) \<le> max (length acc) (nat limit)"
proof (induction ds arbitrary: acc st)
  case Nil
  show ?case by simp
next
  case (Cons d ds)
  show ?case
  proof (cases "int (length acc) \<ge> limit")
    case True
    then show ?thesis by simp
  next
    case False
    obtain res st1 where g: "get_dataset_stats h d st = (res, st1)" by (cases "get_dataset_stats h d st")
    show ?thesis
    proof (cases res)
      case None
      with False g Cons.IH [of acc st1] show ?thesis by simp
    next
      case (Some s)
      have "length (fst (collect_stats h limit ds (acc @ [s]) st1)) \<le> max (length (acc @ [s])) (nat limit)"
        by (rule Cons.IH)
      moreover have "max (length (acc @ [s])) (nat limit) \<le> max (length acc) (nat limit)"
        using False by simp
      ultimately show ?thesis using False g Some by simp
    qed
  qed
qed

end
